theory Spec2Isabelle
  imports Main "HOL-Library.Sublist"
begin

section \<open>Strings and the Python library\<close>

text \<open>
  A Python \<^verbatim>\<open>str\<close> is a sequence of Unicode code points, so a string is a list of
  natural numbers and \<^verbatim>\<open>len\<close> is \<open>length\<close>. A literal of the source is written
  \<open>lit ''...''\<close>; text outside ASCII is written as its code points.
\<close>

type_synonym ustr = "nat list"

abbreviation (input) lit :: "string \<Rightarrow> ustr" where
  "lit s \<equiv> map of_char s"

text \<open>
  Exceptions. \<open>Raised m\<close> is an instance of \<^verbatim>\<open>Exception\<close> raised by a collaborator
  (socket, translator, chat framework) whose \<^verbatim>\<open>str(e)\<close> is \<open>m\<close>; \<open>KeyError k\<close> is the
  one a dict lookup of the missing key \<open>k\<close> raises; \<open>Unprintable e'\<close> is an instance of
  \<^verbatim>\<open>Exception\<close> whose \<^verbatim>\<open>__str__\<close> raises \<open>e'\<close>; \<open>Interrupt m\<close> is an exception that is
  not an instance of \<^verbatim>\<open>Exception\<close> (\<^verbatim>\<open>KeyboardInterrupt\<close>, \<^verbatim>\<open>SystemExit\<close>,
  \<^verbatim>\<open>asyncio.CancelledError\<close>), which \<^verbatim>\<open>except Exception\<close> does not catch.
  A computation that may raise returns \<open>exn + 'a\<close>, with \<open>Inl\<close> the exception;
  \<^verbatim>\<open>str(e)\<close> is such a computation.
\<close>

datatype exn = Raised ustr | KeyError ustr | Unprintable exn | Interrupt ustr

fun is_exception :: "exn \<Rightarrow> bool" where
  "is_exception (Interrupt m) = False"
| "is_exception e = True"

fun exn_str :: "exn \<Rightarrow> exn + ustr" where
  "exn_str (Raised m) = Inr m"
| "exn_str (KeyError k) = Inr ([39] @ k @ [39])"
| "exn_str (Unprintable e') = Inl e'"
| "exn_str (Interrupt m) = Inr m"

text \<open>
  \<^verbatim>\<open>HistoryEntry\<close>: the dict \<^verbatim>\<open>{"role": .., "content": .., "timestamp": ..}\<close> that
  \<^verbatim>\<open>handle_message\<close> builds, with its three keys in that order.
\<close>

record entry =
  role :: ustr
  content :: ustr
  timestamp :: ustr

text \<open>
  The Unicode tables and the JSON reader of the Python library are not part of the
  repository. On ASCII their behaviour is fixed and written out below; beyond ASCII it
  is taken as a parameter:
  \<^item> \<open>alnum_ext c\<close>: \<^verbatim>\<open>chr(c).isalnum()\<close> for \<open>c \<ge> 128\<close> (the non-ASCII part of \<^verbatim>\<open>\w\<close>);
  \<^item> \<open>lower_ext s\<close>: \<^verbatim>\<open>s.lower()\<close> for a string \<open>s\<close> with a code point outside ASCII;
  \<^item> \<open>json_other t\<close>: \<^verbatim>\<open>json.loads(t)\<close> for a document \<open>t\<close> that is not in the form
    \<^verbatim>\<open>save_history_to_file\<close> writes (see \<open>json_loads\<close> below).
\<close>

record pylib =
  alnum_ext :: "nat \<Rightarrow> bool"
  lower_ext :: "ustr \<Rightarrow> ustr"
  json_other :: "ustr \<Rightarrow> exn + entry list"

text \<open>
  White space, for \<^verbatim>\<open>str.strip\<close> and for \<^verbatim>\<open>\s\<close> alike: the 29 code points of
  CPython's \<^verbatim>\<open>Py_UNICODE_ISSPACE\<close>.
\<close>

definition py_isspace :: "nat \<Rightarrow> bool" where
  "py_isspace c \<longleftrightarrow>
     (9 \<le> c \<and> c \<le> 13) \<or> (28 \<le> c \<and> c \<le> 32) \<or> c = 0x85 \<or> c = 0xA0 \<or> c = 0x1680
     \<or> (0x2000 \<le> c \<and> c \<le> 0x200A) \<or> c = 0x2028 \<or> c = 0x2029 \<or> c = 0x202F \<or> c = 0x205F
     \<or> c = 0x3000"

definition py_strip :: "ustr \<Rightarrow> ustr" where
  "py_strip s = rev (dropWhile py_isspace (rev (dropWhile py_isspace s)))"

definition ascii_lower :: "nat \<Rightarrow> nat" where
  "ascii_lower c = (if 65 \<le> c \<and> c \<le> 90 then c + 32 else c)"

definition py_lower :: "pylib \<Rightarrow> ustr \<Rightarrow> ustr" where
  "py_lower L s = (if \<forall>c\<in>set s. c < 128 then map ascii_lower s else lower_ext L s)"

definition startswith :: "ustr \<Rightarrow> ustr \<Rightarrow> bool" where
  "startswith s p \<longleftrightarrow> take (length p) s = p"

fun py_join :: "ustr \<Rightarrow> ustr list \<Rightarrow> ustr" where
  "py_join sep [] = []"
| "py_join sep [x] = x"
| "py_join sep (x # y # ys) = x @ sep @ py_join sep (y # ys)"

section \<open>Validator and language detector\<close>

text \<open>
  The character classes of the pattern of \<^verbatim>\<open>validate_input\<close>,
  \<^verbatim>\<open>^[\w\s.,!?\'\"-]+$|^[\u0600-\u06FF\s.,!?]+$\<close>.
  \<^verbatim>\<open>\w\<close> on a \<^verbatim>\<open>str\<close> pattern is Unicode-aware: an alphanumeric code point of any
  script, or the underscore.
\<close>

definition re_word :: "pylib \<Rightarrow> nat \<Rightarrow> bool" where
  "re_word L c \<longleftrightarrow>
     (if c < 128
      then (48 \<le> c \<and> c \<le> 57) \<or> (65 \<le> c \<and> c \<le> 90) \<or> (97 \<le> c \<and> c \<le> 122) \<or> c = 95
      else alnum_ext L c)"

definition arabic_block :: "nat \<Rightarrow> bool" where
  "arabic_block c \<longleftrightarrow> 0x600 \<le> c \<and> c \<le> 0x6FF"

text \<open>\<^verbatim>\<open>[\w\s.,!?\'\"-]\<close>: full stop 46, comma 44, 33 \<^verbatim>\<open>!\<close>, 63 \<^verbatim>\<open>?\<close>, apostrophe 39,
  double quote 34, hyphen 45.\<close>

definition latin_class :: "pylib \<Rightarrow> nat \<Rightarrow> bool" where
  "latin_class L c \<longleftrightarrow> re_word L c \<or> py_isspace c \<or> c \<in> {46, 44, 33, 63, 39, 34, 45}"

text \<open>\<^verbatim>\<open>[\u0600-\u06FF\s.,!?]\<close>.\<close>

definition urdu_class :: "nat \<Rightarrow> bool" where
  "urdu_class c \<longleftrightarrow> arabic_block c \<or> py_isspace c \<or> c \<in> {46, 44, 33, 63}"

text \<open>
  \<^verbatim>\<open>re.match('^[cls]+$', s)\<close>: some \<open>k \<ge> 1\<close> leading code points are in the class, and
  what follows them is the end of the string, or one line feed (10) that ends the string
  (\<^verbatim>\<open>$\<close> also matches just before a final newline).
\<close>

definition re_match_plus :: "(nat \<Rightarrow> bool) \<Rightarrow> ustr \<Rightarrow> bool" where
  "re_match_plus cls s \<longleftrightarrow>
     (\<exists>k\<in>{1..length s}. list_all cls (take k s) \<and> (drop k s = [] \<or> drop k s = [10]))"

definition validate_input :: "pylib \<Rightarrow> ustr \<Rightarrow> bool" where
  "validate_input L text =
     (if text = [] \<or> py_strip text = [] then False
      else re_match_plus (latin_class L) text \<or> re_match_plus urdu_class text)"

text \<open>
  \<^verbatim>\<open>re.search\<close> of a one-character class: the first code point of the class, if any.
\<close>

definition re_search :: "(nat \<Rightarrow> bool) \<Rightarrow> ustr \<Rightarrow> nat option" where
  "re_search cls text = find cls text"

text \<open>
  \<^verbatim>\<open>detect_language\<close>: \<^verbatim>\<open>re.search\<close> of \<^verbatim>\<open>[\u0600-\u06FF]\<close>, then of \<^verbatim>\<open>[a-zA-Z]\<close>.
  Neither search can raise on a \<^verbatim>\<open>str\<close>, so the \<^verbatim>\<open>except\<close> branch is never taken.
\<close>

definition ascii_letter :: "nat \<Rightarrow> bool" where
  "ascii_letter c \<longleftrightarrow> (97 \<le> c \<and> c \<le> 122) \<or> (65 \<le> c \<and> c \<le> 90)"

definition detect_language :: "ustr \<Rightarrow> ustr" where
  "detect_language text =
     (if re_search arabic_block text \<noteq> None then lit ''ur''
      else if re_search ascii_letter text \<noteq> None then lit ''en''
      else lit ''unknown'')"

text \<open>
  A library instance for concrete inputs. It agrees with CPython on the Basic Latin and
  Arabic blocks (alphanumeric code points of U+0600 to U+06FF: the general categories
  Lo, Lm and Nd of the Unicode Character Database) and leaves everything else out: no
  other alphanumerics, no case mapping, and a JSON reader that raises on every document
  not in the written form.
\<close>

definition sample_lib :: pylib where
  "sample_lib =
     \<lparr> alnum_ext = (\<lambda>c. (0x620 \<le> c \<and> c \<le> 0x64A) \<or> (0x660 \<le> c \<and> c \<le> 0x669)
                      \<or> (0x66E \<le> c \<and> c \<le> 0x66F) \<or> (0x671 \<le> c \<and> c \<le> 0x6D3) \<or> c = 0x6D5
                      \<or> (0x6E5 \<le> c \<and> c \<le> 0x6E6) \<or> (0x6EE \<le> c \<and> c \<le> 0x6FC) \<or> c = 0x6FF),
       lower_ext = (\<lambda>s. s),
       json_other = (\<lambda>t. Inl (Raised (lit ''Expecting value''))) \<rparr>"

section \<open>Translation dispatcher\<close>

text \<open>
  The outcome of \<^verbatim>\<open>socket.create_connection\<close> in \<^verbatim>\<open>check_internet\<close>: it returns
  (\<open>Connected\<close>), raises \<^verbatim>\<open>socket.gaierror\<close> or \<^verbatim>\<open>socket.timeout\<close>, which
  \<^verbatim>\<open>check_internet\<close> catches (\<open>Unreachable\<close>), or raises another exception, such as
  \<^verbatim>\<open>ConnectionRefusedError\<close>, which it does not catch (\<open>ConnFailure\<close>). The handler
  logs \<^verbatim>\<open>str(e)\<close> before it returns false.
\<close>

datatype conn = Connected | Unreachable exn | ConnFailure exn

fun check_internet :: "conn \<Rightarrow> exn + bool" where
  "check_internet Connected = Inr True"
| "check_internet (Unreachable e) = (case exn_str e of Inl e' \<Rightarrow> Inl e' | Inr m \<Rightarrow> Inr False)"
| "check_internet (ConnFailure e) = Inl e"

text \<open>
  A translator handle is its \<^verbatim>\<open>translate\<close> method: it returns the translated text or
  raises. The \<^verbatim>\<open>translators\<close> dict is an association list from key to handle, and the
  session value is \<open>None\<close> when the session key was never set.
\<close>

type_synonym translator = "ustr \<Rightarrow> exn + ustr"
type_synonym translators = "(ustr \<times> translator) list"

text \<open>
  The body of the \<^verbatim>\<open>try\<close> block of \<^verbatim>\<open>translate_text\<close>. The second component lists
  the calls made to the translation collaborator, as (key, text) pairs. Log lines are
  not modelled.
\<close>

definition translate_text_try ::
  "pylib \<Rightarrow> conn \<Rightarrow> translators option \<Rightarrow> ustr \<Rightarrow> (exn + ustr) \<times> (ustr \<times> ustr) list" where
  "translate_text_try L net translators text =
     (case translators of
        None \<Rightarrow> (Inr (lit ''Error: Translators not initialized.''), [])
      | Some [] \<Rightarrow> (Inr (lit ''Error: Translators not initialized.''), [])
      | Some (t # ts) \<Rightarrow>
         (case check_internet net of
            Inl e \<Rightarrow> (Inl e, [])
          | Inr online \<Rightarrow>
             if \<not> online
             then (Inr (lit ''Error: No internet connection. Please check your network.''), [])
             else if \<not> validate_input L text
             then (Inr (lit ''Error: Please provide valid English or Urdu text.''), [])
             else
               let source_lang = detect_language text in
               if source_lang = lit ''unknown''
               then (Inr (lit ''Error: Unable to detect language. Use clear English or Urdu text.''), [])
               else
                 let translator_key =
                       (if source_lang = lit ''en'' then lit ''en_to_ur'' else lit ''ur_to_en'');
                     target_lang = (if source_lang = lit ''en'' then lit ''Urdu'' else lit ''English'')
                 in case map_of (t # ts) translator_key of
                      None \<Rightarrow> (Inl (KeyError translator_key), [])
                    | Some tr \<Rightarrow>
                       (case tr text of
                          Inl e \<Rightarrow> (Inl e, [(translator_key, text)])
                        | Inr translated \<Rightarrow>
                           (Inr (lit ''Translation to '' @ target_lang @ lit '': '' @ translated),
                            [(translator_key, text)]))))"

text \<open>
  \<^verbatim>\<open>translate_text\<close>: the body under its \<^verbatim>\<open>except Exception as e\<close> handler. The
  handler does not catch an exception that is not an instance of \<^verbatim>\<open>Exception\<close>, and it
  evaluates \<^verbatim>\<open>str(e)\<close>, which may raise in turn; both leave \<^verbatim>\<open>translate_text\<close>.
\<close>

definition translate_text ::
  "pylib \<Rightarrow> conn \<Rightarrow> translators option \<Rightarrow> ustr \<Rightarrow> (exn + ustr) \<times> (ustr \<times> ustr) list" where
  "translate_text L net translators text =
     (case translate_text_try L net translators text of
        (Inr r, calls) \<Rightarrow> (Inr r, calls)
      | (Inl e, calls) \<Rightarrow>
         if \<not> is_exception e then (Inl e, calls)
         else (case exn_str e of
                 Inl e' \<Rightarrow> (Inl e', calls)
               | Inr m \<Rightarrow>
                  (Inr (lit ''Error: Unable to translate. Check your internet connection. ('' @ m
                        @ lit '')''), calls)))"

section \<open>History file\<close>

text \<open>
  \<^verbatim>\<open>json.dump(history, f, ensure_ascii=False)\<close>. A string is written between double
  quotes (34) with the escapes of \<^verbatim>\<open>json.encoder.py_encode_basestring\<close>: a backslash (92)
  before a double quote or a backslash, the short escapes for 8, 9, 10, 12 and 13, and
  \<^verbatim>\<open>\u00XX\<close> for the other code points below 32. Everything else is written verbatim.
  Items are separated by \<^verbatim>\<open>", "\<close> and keys from values by \<^verbatim>\<open>": "\<close>.
\<close>

definition hex_digit :: "nat \<Rightarrow> nat" where
  "hex_digit d = (if d < 10 then 48 + d else 87 + d)"

definition json_escape :: "nat \<Rightarrow> ustr" where
  "json_escape c =
     (if c = 34 then [92, 34]
      else if c = 92 then [92, 92]
      else if c = 10 then [92, 110]
      else if c = 13 then [92, 114]
      else if c = 9 then [92, 116]
      else if c = 8 then [92, 98]
      else if c = 12 then [92, 102]
      else if c < 32 then [92, 117, 48, 48, hex_digit (c div 16), hex_digit (c mod 16)]
      else [c])"

definition py_encode_basestring :: "ustr \<Rightarrow> ustr" where
  "py_encode_basestring s = 34 # concat (map json_escape s) @ [34]"

definition json_entry :: "entry \<Rightarrow> ustr" where
  "json_entry e =
     lit ''{'' @ py_encode_basestring (lit ''role'') @ lit '': '' @ py_encode_basestring (role e)
     @ lit '', '' @ py_encode_basestring (lit ''content'') @ lit '': ''
     @ py_encode_basestring (content e)
     @ lit '', '' @ py_encode_basestring (lit ''timestamp'') @ lit '': ''
     @ py_encode_basestring (timestamp e) @ lit ''}''"

definition json_dumps :: "entry list \<Rightarrow> ustr" where
  "json_dumps history = lit ''['' @ py_join (lit '', '') (map json_entry history) @ lit '']''"

text \<open>
  \<^verbatim>\<open>json.load\<close>, on the documents \<^verbatim>\<open>save_history_to_file\<close> writes: an array of objects
  with the keys \<^verbatim>\<open>role\<close>, \<^verbatim>\<open>content\<close>, \<^verbatim>\<open>timestamp\<close> in this order and string values,
  with the separators above. \<open>scan_string\<close> follows \<^verbatim>\<open>json.decoder.py_scanstring\<close> from
  just after the opening quote: it ends at the closing quote, decodes an escape, and
  rejects a raw code point below 32. It gives \<open>None\<close> on an escaped surrogate (Python
  pairs surrogates up), so such a document is left to \<open>json_other\<close>, as is every
  document that is not in the form above.
\<close>

definition hex_val :: "nat \<Rightarrow> nat option" where
  "hex_val c =
     (if 48 \<le> c \<and> c \<le> 57 then Some (c - 48)
      else if 97 \<le> c \<and> c \<le> 102 then Some (c - 87)
      else if 65 \<le> c \<and> c \<le> 70 then Some (c - 55)
      else None)"

definition unescape :: "nat \<Rightarrow> nat option" where
  "unescape c =
     (if c = 34 then Some 34
      else if c = 92 then Some 92
      else if c = 47 then Some 47
      else if c = 98 then Some 8
      else if c = 102 then Some 12
      else if c = 110 then Some 10
      else if c = 114 then Some 13
      else if c = 116 then Some 9
      else None)"

definition consed :: "nat \<Rightarrow> (ustr \<times> ustr) option \<Rightarrow> (ustr \<times> ustr) option" where
  "consed c r = (case r of None \<Rightarrow> None | Some (s, rest) \<Rightarrow> Some (c # s, rest))"

fun scan_string :: "ustr \<Rightarrow> (ustr \<times> ustr) option" where
  "scan_string [] = None"
| "scan_string (c # cs) =
     (if c = 34 then Some ([], cs)
      else if c = 92 then
        (case cs of
           [] \<Rightarrow> None
         | e # r \<Rightarrow>
            if e = 117 then
              (case r of
                 h1 # h2 # h3 # h4 # r' \<Rightarrow>
                   (case (hex_val h1, hex_val h2, hex_val h3, hex_val h4) of
                      (Some a, Some b, Some c', Some d) \<Rightarrow>
                        (let u = ((a * 16 + b) * 16 + c') * 16 + d
                         in if 0xD800 \<le> u \<and> u \<le> 0xDFFF then None else consed u (scan_string r'))
                    | _ \<Rightarrow> None)
               | _ \<Rightarrow> None)
            else (case unescape e of None \<Rightarrow> None | Some x \<Rightarrow> consed x (scan_string r)))
      else if c < 32 then None
      else consed c (scan_string cs))"

definition expect :: "ustr \<Rightarrow> ustr \<Rightarrow> ustr option" where
  "expect p s = (if startswith s p then Some (drop (length p) s) else None)"

definition scan_field :: "ustr \<Rightarrow> ustr \<Rightarrow> (ustr \<times> ustr) option" where
  "scan_field key s =
     (case expect (py_encode_basestring key @ lit '': '' @ [34]) s of
        None \<Rightarrow> None
      | Some s' \<Rightarrow> scan_string s')"

definition scan_entry :: "ustr \<Rightarrow> (entry \<times> ustr) option" where
  "scan_entry s =
     (case expect (lit ''{'') s of None \<Rightarrow> None | Some s1 \<Rightarrow>
      case scan_field (lit ''role'') s1 of None \<Rightarrow> None | Some (r, s2) \<Rightarrow>
      case expect (lit '', '') s2 of None \<Rightarrow> None | Some s3 \<Rightarrow>
      case scan_field (lit ''content'') s3 of None \<Rightarrow> None | Some (c, s4) \<Rightarrow>
      case expect (lit '', '') s4 of None \<Rightarrow> None | Some s5 \<Rightarrow>
      case scan_field (lit ''timestamp'') s5 of None \<Rightarrow> None | Some (t, s6) \<Rightarrow>
      case expect (lit ''}'') s6 of None \<Rightarrow> None | Some s7 \<Rightarrow>
        Some (\<lparr>role = r, content = c, timestamp = t\<rparr>, s7))"

text \<open>
  The items of a non-empty array. The recursive call is on what follows an item and its
  separator, which is shorter than the input; the test on the lengths says so.
\<close>

function scan_entries :: "ustr \<Rightarrow> entry list option" where
  "scan_entries s =
     (case scan_entry s of
        None \<Rightarrow> None
      | Some (e, rest) \<Rightarrow>
         if rest = lit '']'' then Some [e]
         else (case expect (lit '', '') rest of
                 None \<Rightarrow> None
               | Some rest' \<Rightarrow>
                  if length rest' < length s
                  then (case scan_entries rest' of None \<Rightarrow> None | Some es \<Rightarrow> Some (e # es))
                  else None))"
  by pat_completeness auto
termination
  by (relation "measure length") auto

definition parse_history :: "ustr \<Rightarrow> entry list option" where
  "parse_history t =
     (if t = lit ''[]'' then Some []
      else case expect (lit ''['') t of None \<Rightarrow> None | Some s \<Rightarrow> scan_entries s)"

definition json_loads :: "pylib \<Rightarrow> ustr \<Rightarrow> exn + entry list" where
  "json_loads L t = (case parse_history t of Some h \<Rightarrow> Inr h | None \<Rightarrow> json_other L t)"

text \<open>
  The file \<^verbatim>\<open>translation_history.json\<close> is \<open>None\<close> when absent and its text otherwise.
  Writing it as UTF-8 raises on a string that has a surrogate code point; the operating
  system may make the attempt raise as well (\<open>write_raises\<close>). \<^verbatim>\<open>save_history_to_file\<close>
  catches both, and the file is then left as the failed attempt left it (\<open>leftover\<close>:
  untouched, emptied or partly written). These errors (\<^verbatim>\<open>OSError\<close>, \<^verbatim>\<open>UnicodeEncodeError\<close>,
  and for reading also \<^verbatim>\<open>json.JSONDecodeError\<close>) are instances of \<^verbatim>\<open>Exception\<close> whose
  text the handler can log.
\<close>

definition utf8_encodable :: "ustr \<Rightarrow> bool" where
  "utf8_encodable t \<longleftrightarrow> (\<forall>c\<in>set t. c < 0xD800 \<or> (0xDFFF < c \<and> c < 0x110000))"

definition save_history_to_file ::
  "bool \<Rightarrow> ustr option \<Rightarrow> entry list \<Rightarrow> ustr option \<Rightarrow> ustr option" where
  "save_history_to_file write_raises leftover history disk =
     (let t = json_dumps history
      in if write_raises \<or> \<not> utf8_encodable t then leftover else Some t)"

text \<open>
  \<^verbatim>\<open>load_history_from_file\<close>: the empty list when the file is absent, and when opening,
  reading (\<open>read_raises\<close>) or parsing it raises.
\<close>

definition load_history_from_file :: "pylib \<Rightarrow> bool \<Rightarrow> ustr option \<Rightarrow> entry list" where
  "load_history_from_file L read_raises disk =
     (case disk of
        None \<Rightarrow> []
      | Some t \<Rightarrow>
         if read_raises then []
         else (case json_loads L t of Inl e \<Rightarrow> [] | Inr history \<Rightarrow> history))"

section \<open>Session, commands and message turns\<close>

text \<open>
  Python lists are objects: \<^verbatim>\<open>history.append\<close> changes the list that the session store
  holds too, when both are the same object. The store \<open>heap\<close> maps the address of a list
  object to its value, and \<open>fresh\<close> is the next unused address. The session keeps the
  address of its history list (\<open>None\<close>: key never set) and the translators.
  \<open>sent\<close> are the chat messages sent so far and \<open>translator_calls\<close> the calls made to
  the translation collaborator, both oldest first; \<open>disk\<close> is the history file.
\<close>

record world =
  heap :: "nat \<Rightarrow> entry list"
  fresh :: nat
  session_history :: "nat option"
  session_translators :: "translators option"
  disk :: "ustr option"
  sent :: "ustr list"
  translator_calls :: "(ustr \<times> ustr) list"

text \<open>
  What the environment does during one message turn: the two values of
  \<^verbatim>\<open>get_current_timestamp()\<close>, the connectivity probe, the outcome of
  \<^verbatim>\<open>cl.Message(..).send()\<close> in the \<^verbatim>\<open>try\<close> block and in the \<^verbatim>\<open>except\<close> block (\<open>None\<close>:
  it returns; \<open>Some e\<close>: it raises \<open>e\<close>), and the outcome of writing the file.
\<close>

record env =
  now_user :: ustr
  now_reply :: ustr
  probe :: conn
  send_try :: "exn option"
  send_except :: "exn option"
  write_raises :: bool
  leftover :: "ustr option"

definition alloc :: "entry list \<Rightarrow> world \<Rightarrow> nat \<times> world" where
  "alloc xs w = (fresh w, w\<lparr>heap := (heap w)(fresh w := xs), fresh := Suc (fresh w)\<rparr>)"

definition list_append :: "nat \<Rightarrow> entry \<Rightarrow> world \<Rightarrow> world" where
  "list_append a e w = w\<lparr>heap := (heap w)(a := heap w a @ [e])\<rparr>"

text \<open>\<^verbatim>\<open>xs[-10:]\<close>: a new list of the last ten items, or of all when there are fewer.\<close>

definition last10 :: "'a list \<Rightarrow> 'a list" where
  "last10 xs = drop (length xs - 10) xs"

definition render :: "entry \<Rightarrow> ustr" where
  "render e = timestamp e @ lit '' ['' @ role e @ lit '']: '' @ content e"

text \<open>
  \<^verbatim>\<open>process_command\<close>. \<^verbatim>\<open>cl.user_session.get("history", [])\<close> gives the session's list
  object, or an empty list when the key is not set; \<^verbatim>\<open>/clear\<close> stores a new empty list.
\<close>

definition process_command :: "pylib \<Rightarrow> ustr \<Rightarrow> world \<Rightarrow> ustr \<times> world" where
  "process_command L command w =
     (let command = py_strip (py_lower L command) in
      if command = lit ''/history'' then
        (let history = (case session_history w of None \<Rightarrow> [] | Some a \<Rightarrow> heap w a)
         in if history = [] then (lit ''No translation history available.'', w)
            else (py_join [10] (map render history), w))
      else if command = lit ''/clear'' then
        (let (a, w') = alloc [] w
         in (lit ''Translation history cleared.'', w'\<lparr>session_history := Some a\<rparr>))
      else (lit ''Unknown command. Available: /history, /clear'', w))"

text \<open>
  The three statements that end both the \<^verbatim>\<open>try\<close> and the \<^verbatim>\<open>except\<close> block of
  \<^verbatim>\<open>handle_message\<close>, on the local list \<open>h\<close>: append the assistant entry, store
  \<^verbatim>\<open>history[-10:]\<close> in the session, save \<^verbatim>\<open>history\<close>.
\<close>

definition store_turn :: "env \<Rightarrow> nat \<Rightarrow> ustr \<Rightarrow> world \<Rightarrow> world" where
  "store_turn E h reply w =
     (let w1 = list_append h \<lparr>role = lit ''assistant'', content = reply, timestamp = now_reply E\<rparr> w;
          (a, w2) = alloc (last10 (heap w1 h)) w1;
          w3 = w2\<lparr>session_history := Some a\<rparr>
      in w3\<lparr>disk := save_history_to_file (write_raises E) (leftover E) (heap w3 h) (disk w3)\<rparr>)"

text \<open>
  The \<^verbatim>\<open>except Exception as e\<close> block of \<^verbatim>\<open>handle_message\<close>. An exception that is not
  an instance of \<^verbatim>\<open>Exception\<close> passes it by; one raised in it, by \<^verbatim>\<open>str(e)\<close> or by its
  own \<^verbatim>\<open>send\<close>, leaves the handler.
\<close>

definition handle_except :: "env \<Rightarrow> nat \<Rightarrow> exn \<Rightarrow> world \<Rightarrow> world \<times> exn option" where
  "handle_except E h e w =
     (if \<not> is_exception e then (w, Some e)
      else case exn_str e of
        Inl e' \<Rightarrow> (w, Some e')
      | Inr m \<Rightarrow>
         (let error_message = lit ''Error: '' @ m in
          case send_except E of
            Some e' \<Rightarrow> (w, Some e')
          | None \<Rightarrow> (store_turn E h error_message (w\<lparr>sent := sent w @ [error_message]\<rparr>), None)))"

text \<open>
  \<^verbatim>\<open>cl.user_session.get("history", [])\<close>: the session's list object, or a new empty
  list, which the session does not hold, when the key is not set.
\<close>

definition session_get_history :: "world \<Rightarrow> nat \<times> world" where
  "session_get_history w = (case session_history w of Some a \<Rightarrow> (a, w) | None \<Rightarrow> alloc [] w)"

text \<open>
  The choice between command and translation in the \<^verbatim>\<open>try\<close> block. A command cannot
  raise; \<^verbatim>\<open>translate_text\<close> is given the session's translators, and what leaves it
  is raised in the \<^verbatim>\<open>try\<close> block.
\<close>

definition dispatch :: "pylib \<Rightarrow> env \<Rightarrow> ustr \<Rightarrow> world \<Rightarrow> (exn + ustr) \<times> world" where
  "dispatch L E user_input w =
     (if startswith (py_lower L user_input) (lit ''/'')
      then (let (response, w') = process_command L user_input w in (Inr response, w'))
      else (let (res, calls) = translate_text L (probe E) (session_translators w) user_input
            in (res, w\<lparr>translator_calls := translator_calls w @ calls\<rparr>)))"

text \<open>
  \<^verbatim>\<open>handle_message\<close>, on the content of the message. The result is the world after the
  turn, with \<open>None\<close> when the handler returns and \<open>Some e\<close> when \<open>e\<close> leaves it.
\<close>

definition handle_message :: "pylib \<Rightarrow> env \<Rightarrow> ustr \<Rightarrow> world \<Rightarrow> world \<times> exn option" where
  "handle_message L E message_content w =
     (let (h, w0) = session_get_history w;
          user_input = py_strip message_content;
          w1 = list_append h \<lparr>role = lit ''user'', content = user_input, timestamp = now_user E\<rparr> w0;
          (r, w2) = dispatch L E user_input w1
      in case r of
           Inl e \<Rightarrow> handle_except E h e w2
         | Inr response \<Rightarrow>
            (case send_try E of
               Some e \<Rightarrow> handle_except E h e w2
             | None \<Rightarrow> (store_turn E h response (w2\<lparr>sent := sent w2 @ [response]\<rparr>), None)))"

text \<open>A sequence of turns, each with its environment and message, one after the other.\<close>

fun run_turns :: "pylib \<Rightarrow> (env \<times> ustr) list \<Rightarrow> world \<Rightarrow> world" where
  "run_turns L [] w = w"
| "run_turns L ((E, m) # ts) w = run_turns L ts (fst (handle_message L E m w))"

text \<open>The history the session holds, and the worlds a running program can be in: the
  session's list is an allocated object.\<close>

definition session_list :: "world \<Rightarrow> entry list" where
  "session_list w = (case session_history w of None \<Rightarrow> [] | Some a \<Rightarrow> heap w a)"

definition wf_world :: "world \<Rightarrow> bool" where
  "wf_world w \<longleftrightarrow> (case session_history w of None \<Rightarrow> True | Some a \<Rightarrow> a < fresh w)"

section \<open>Definitions for the claims\<close>

text \<open>
  The validator as the specification words it: both alternatives with the same
  punctuation set, the seven marks of the first character class.
\<close>

definition validate_claimed :: "pylib \<Rightarrow> ustr \<Rightarrow> bool" where
  "validate_claimed L s =
     (if s = [] \<or> list_all py_isspace s then False
      else list_all (\<lambda>c. re_word L c \<or> c \<in> {46, 44, 33, 63, 39, 34, 45} \<or> py_isspace c) s
         \<or> list_all (\<lambda>c. arabic_block c \<or> c \<in> {46, 44, 33, 63, 39, 34, 45} \<or> py_isspace c) s)"

text \<open>Translator handles for concrete runs: two that answer, one that raises.\<close>

definition tr_hello :: translator where
  "tr_hello text = Inr [1729, 1740, 1604, 1608]"

definition tr_salam :: translator where
  "tr_salam text = Inr (lit ''Hello'')"

definition tr_down :: translator where
  "tr_down text = Inl (Raised (lit ''Request failed''))"

text \<open>Two more that raise: a \<^verbatim>\<open>KeyboardInterrupt\<close>, and an exception whose \<^verbatim>\<open>__str__\<close>
  raises.\<close>

definition tr_interrupt :: translator where
  "tr_interrupt text = Inl (Interrupt [])"

definition tr_unprintable :: translator where
  "tr_unprintable text = Inl (Unprintable (Raised (lit ''no text'')))"

text \<open>The entries one turn appends: the user's message, stripped, and the reply.\<close>

definition user_entry :: "env \<Rightarrow> ustr \<Rightarrow> entry" where
  "user_entry E m = \<lparr>role = lit ''user'', content = py_strip m, timestamp = now_user E\<rparr>"

definition reply_entry :: "env \<Rightarrow> ustr \<Rightarrow> entry" where
  "reply_entry E r = \<lparr>role = lit ''assistant'', content = r, timestamp = now_reply E\<rparr>"

text \<open>The address of the list object \<^verbatim>\<open>handle_message\<close> works on.\<close>

definition turn_start :: "world \<Rightarrow> nat" where
  "turn_start w = (case session_history w of Some a \<Rightarrow> a | None \<Rightarrow> fresh w)"

text \<open>
  A valid history entry: three strings that can be written to a UTF-8 file, that is,
  without a lone surrogate code point.
\<close>

definition valid_entry :: "entry \<Rightarrow> bool" where
  "valid_entry e \<longleftrightarrow> utf8_encodable (role e) \<and> utf8_encodable (content e) \<and> utf8_encodable (timestamp e)"

text \<open>
  A session just started with no history file: an empty history list at address 0 and
  both translators. \<open>E_ok\<close> is an environment in which nothing fails.
\<close>

definition w_ready :: world where
  "w_ready = \<lparr>heap = (\<lambda>a. []), fresh = 1, session_history = Some 0,
      session_translators = Some [(lit ''en_to_ur'', tr_hello), (lit ''ur_to_en'', tr_salam)],
      disk = None, sent = [], translator_calls = []\<rparr>"

definition E_ok :: env where
  "E_ok = \<lparr>now_user = lit ''2024-01-01 10:00:00'', now_reply = lit ''2024-01-01 10:00:01'',
      probe = Connected, send_try = None, send_except = None, write_raises = False, leftover = None\<rparr>"

text \<open>
  A session that holds ten entries, numbered 0 to 9, which are also what the file holds;
  an environment in which the first \<^verbatim>\<open>send\<close> of a turn raises, and one in which both do.
\<close>

definition numbered :: "nat \<Rightarrow> entry" where
  "numbered n = \<lparr>role = lit ''user'', content = lit ''message '' @ [48 + n],
      timestamp = lit ''2024-01-01 09:00:0'' @ [48 + n]\<rparr>"

definition w_full :: world where
  "w_full = \<lparr>heap = (\<lambda>a. if a = 0 then map numbered [0, 1, 2, 3, 4, 5, 6, 7, 8, 9] else []),
      fresh = 1, session_history = Some 0,
      session_translators = Some [(lit ''en_to_ur'', tr_hello), (lit ''ur_to_en'', tr_salam)],
      disk = Some (json_dumps (map numbered [0, 1, 2, 3, 4, 5, 6, 7, 8, 9])),
      sent = [], translator_calls = []\<rparr>"

definition E_send_fails :: env where
  "E_send_fails = E_ok\<lparr>send_try := Some (Raised (lit ''connection lost''))\<rparr>"

definition E_sends_fail :: env where
  "E_sends_fail = E_ok\<lparr>send_try := Some (Raised (lit ''connection lost'')),
      send_except := Some (Raised (lit ''connection lost''))\<rparr>"

definition error_reply :: entry where
  "error_reply = \<lparr>role = lit ''assistant'', content = lit ''Error: connection lost'',
      timestamp = lit ''2024-01-01 10:00:01''\<rparr>"

text \<open>The turn \<^verbatim>\<open>Hello\<close> in that environment, and the two entries it appends.\<close>

definition hello_user :: entry where
  "hello_user = \<lparr>role = lit ''user'', content = lit ''Hello'', timestamp = lit ''2024-01-01 10:00:00''\<rparr>"

definition hello_reply :: entry where
  "hello_reply = \<lparr>role = lit ''assistant'', content = lit ''Translation to Urdu: '' @ [1729, 1740, 1604, 1608],
      timestamp = lit ''2024-01-01 10:00:01''\<rparr>"

definition hello_turn :: "env \<times> ustr" where
  "hello_turn = (E_ok, lit ''Hello'')"

section \<open>Facts about the string primitives\<close>

lemma py_strip_empty_iff: "py_strip s = [] \<longleftrightarrow> list_all py_isspace s"
proof -
  have "dropWhile py_isspace (rev (dropWhile py_isspace s)) = []
        \<longleftrightarrow> dropWhile py_isspace s = []"
    by (metis dropWhile_eq_Nil_conv dropWhile_idem rev.simps(1) rev_rev_ident set_rev)
  then show ?thesis
    by (simp add: py_strip_def list_all_iff)
qed

lemma re_match_plus_iff:
  assumes "cls 10"
  shows "re_match_plus cls s \<longleftrightarrow> s \<noteq> [] \<and> list_all cls s"
proof
  assume "re_match_plus cls s"
  then obtain k where k: "1 \<le> k" "k \<le> length s" "list_all cls (take k s)"
      "drop k s = [] \<or> drop k s = [10]"
    by (auto simp: re_match_plus_def)
  from k(4) assms have "list_all cls (drop k s)" by auto
  with k(3) have "list_all cls (take k s @ drop k s)" by (simp del: append_take_drop_id)
  with k(1,2) show "s \<noteq> [] \<and> list_all cls s" by auto
next
  assume "s \<noteq> [] \<and> list_all cls s"
  then have "length s \<in> {1..length s}"
      "list_all cls (take (length s) s) \<and> (drop (length s) s = [] \<or> drop (length s) s = [10])"
    by (auto simp: Suc_le_eq)
  then show "re_match_plus cls s" unfolding re_match_plus_def by blast
qed

lemma latin_class_newline: "latin_class L 10"
  by (simp add: latin_class_def py_isspace_def)

lemma urdu_class_newline: "urdu_class 10"
  by (simp add: urdu_class_def py_isspace_def)

lemma validate_input_iff:
  "validate_input L s \<longleftrightarrow>
     \<not> list_all py_isspace s \<and> (list_all (latin_class L) s \<or> list_all urdu_class s)"
  by (cases "s = []")
    (auto simp: validate_input_def py_strip_empty_iff
      re_match_plus_iff [of "latin_class L", OF latin_class_newline]
      re_match_plus_iff [of urdu_class, OF urdu_class_newline])

lemma sample_lib_sel [simp]:
  "alnum_ext sample_lib c \<longleftrightarrow> (0x620 \<le> c \<and> c \<le> 0x64A) \<or> (0x660 \<le> c \<and> c \<le> 0x669)
                      \<or> (0x66E \<le> c \<and> c \<le> 0x66F) \<or> (0x671 \<le> c \<and> c \<le> 0x6D3) \<or> c = 0x6D5
                      \<or> (0x6E5 \<le> c \<and> c \<le> 0x6E6) \<or> (0x6EE \<le> c \<and> c \<le> 0x6FC) \<or> c = 0x6FF"
  "lower_ext sample_lib s = s"
  "json_other sample_lib t = Inl (Raised (lit ''Expecting value''))"
  by (simp_all add: sample_lib_def)

lemmas class_defs = latin_class_def urdu_class_def re_word_def py_isspace_def arabic_block_def

section \<open>Facts about the history file\<close>

lemma hex_val_hex_digit: "d < 16 \<Longrightarrow> hex_val (hex_digit d) = Some d"
  by (auto simp: hex_val_def hex_digit_def)

lemma consed_Some [simp]: "consed c (Some (s, rest)) = Some (c # s, rest)"
  by (simp add: consed_def)

lemma scan_string_escape:
  assumes "scan_string (cs @ 34 # rest) = Some (s, rest)"
  shows "scan_string (json_escape c @ cs @ 34 # rest) = Some (c # s, rest)"
proof -
  consider "c = 34" | "c = 92" | "c = 10" | "c = 13" | "c = 9" | "c = 8" | "c = 12"
    | "c < 32" "c \<notin> {34, 92, 10, 13, 9, 8, 12}" | "32 \<le> c" "c \<noteq> 34" "c \<noteq> 92"
    by fastforce
  then show ?thesis
  proof cases
    case 8
    then have d: "c div 16 < 16" "c mod 16 < 16" "c div 16 * 16 + c mod 16 = c"
      by simp_all
    from 8 have "json_escape c = [92, 117, 48, 48, hex_digit (c div 16), hex_digit (c mod 16)]"
      by (auto simp: json_escape_def)
    moreover have "hex_val 48 = Some 0" by (simp add: hex_val_def)
    ultimately show ?thesis
      using assms 8 d by (simp add: hex_val_hex_digit)
  next
    case 9
    then show ?thesis using assms by (simp add: json_escape_def)
  qed (use assms in \<open>simp_all add: json_escape_def unescape_def\<close>)
qed

lemma scan_string_encoded:
  "scan_string (concat (map json_escape s) @ 34 # rest) = Some (s, rest)"
  by (induction s) (simp_all add: scan_string_escape)

lemma expect_prefix [simp]: "expect p (p @ s) = Some s"
  by (simp add: expect_def startswith_def)

lemma scan_field_encoded:
  "scan_field key (py_encode_basestring key @ lit '': '' @ py_encode_basestring v @ rest)
   = Some (v, rest)"
proof -
  have "py_encode_basestring key @ lit '': '' @ py_encode_basestring v @ rest
        = (py_encode_basestring key @ lit '': '' @ [34]) @ concat (map json_escape v) @ 34 # rest"
    by (simp add: py_encode_basestring_def)
  then show ?thesis
    unfolding scan_field_def by (simp only: expect_prefix option.case scan_string_encoded)
qed

lemma scan_entry_encoded: "scan_entry (json_entry e @ rest) = Some (e, rest)"
proof -
  let ?f = "\<lambda>k v r. py_encode_basestring k @ lit '': '' @ py_encode_basestring v @ r"
  have "json_entry e @ rest
        = lit ''{'' @ ?f (lit ''role'') (role e)
            (lit '', '' @ ?f (lit ''content'') (content e)
              (lit '', '' @ ?f (lit ''timestamp'') (timestamp e) (lit ''}'' @ rest)))"
    by (simp add: json_entry_def)
  then show ?thesis
    unfolding scan_entry_def
    by (simp only: expect_prefix option.case scan_field_encoded prod.case) simp
qed

lemma length_json_entry: "0 < length (json_entry e)"
  by (simp add: json_entry_def)

lemma scan_entries_last: "scan_entries (json_entry e @ lit '']'') = Some [e]"
  by (subst scan_entries.simps) (simp add: scan_entry_encoded)

lemma scan_entries_more:
  "scan_entries (json_entry e @ lit '', '' @ r)
   = (case scan_entries r of None \<Rightarrow> None | Some es \<Rightarrow> Some (e # es))"
  by (subst scan_entries.simps) (simp add: scan_entry_encoded expect_def startswith_def)

lemma scan_entries_encoded:
  "scan_entries (py_join (lit '', '') (map json_entry (e # es)) @ lit '']'') = Some (e # es)"
proof (induction es arbitrary: e)
  case Nil
  show ?case using scan_entries_last [of e] by simp
next
  case (Cons e' es)
  show ?case
    using scan_entries_more [of e "py_join (lit '', '') (map json_entry (e' # es)) @ lit '']''"]
      Cons.IH [of e']
    by simp
qed

lemma parse_history_dumps: "parse_history (json_dumps h) = Some h"
proof (cases h)
  case Nil
  then show ?thesis by (simp add: parse_history_def json_dumps_def)
next
  case (Cons e es)
  have "json_dumps (e # es) \<noteq> lit ''[]''"
    by (cases es) (simp_all add: json_dumps_def json_entry_def)
  moreover have "json_dumps (e # es) = lit ''['' @ py_join (lit '', '') (map json_entry (e # es)) @ lit '']''"
    by (simp add: json_dumps_def)
  ultimately show ?thesis
    unfolding parse_history_def Cons
    by (simp only: if_False expect_prefix option.case scan_entries_encoded)
qed

lemma utf8_encodable_simps [simp]:
  "utf8_encodable []"
  "utf8_encodable (c # s) \<longleftrightarrow> (c < 0xD800 \<or> (0xDFFF < c \<and> c < 0x110000)) \<and> utf8_encodable s"
  "utf8_encodable (s @ t) \<longleftrightarrow> utf8_encodable s \<and> utf8_encodable t"
  by (auto simp: utf8_encodable_def)

lemma utf8_encodable_escape:
  "c < 0xD800 \<or> (0xDFFF < c \<and> c < 0x110000) \<Longrightarrow> utf8_encodable (json_escape c)"
  by (auto simp: json_escape_def hex_digit_def)

lemma utf8_encodable_escapes: "utf8_encodable s \<Longrightarrow> utf8_encodable (concat (map json_escape s))"
  by (induction s) (simp_all add: utf8_encodable_escape)

lemma utf8_encodable_basestring:
  "utf8_encodable s \<Longrightarrow> utf8_encodable (py_encode_basestring s)"
  by (simp add: py_encode_basestring_def utf8_encodable_escapes)

lemma utf8_encodable_entry: "valid_entry e \<Longrightarrow> utf8_encodable (json_entry e)"
  by (simp add: json_entry_def valid_entry_def utf8_encodable_basestring)

lemma utf8_encodable_join:
  "list_all valid_entry h \<Longrightarrow> utf8_encodable (py_join (lit '', '') (map json_entry h))"
  by (induction h rule: induct_list012) (simp_all add: utf8_encodable_entry)

lemma utf8_encodable_dumps: "list_all valid_entry h \<Longrightarrow> utf8_encodable (json_dumps h)"
  using utf8_encodable_join [of h] by (simp add: json_dumps_def)

lemma save_succeeds:
  "\<not> wr \<Longrightarrow> list_all valid_entry h \<Longrightarrow> save_history_to_file wr lo h d = Some (json_dumps h)"
  by (simp add: save_history_to_file_def utf8_encodable_dumps)

lemma load_dumps: "load_history_from_file L False (Some (json_dumps h)) = h"
  by (simp add: load_history_from_file_def json_loads_def parse_history_dumps)

section \<open>Facts about message turns\<close>

lemma store_turn_effect:
  assumes "h < fresh w"
  shows "session_history (store_turn E h r w) = Some (fresh w)"
    and "heap (store_turn E h r w) (fresh w) = last10 (heap w h @ [reply_entry E r])"
    and "heap (store_turn E h r w) h = heap w h @ [reply_entry E r]"
    and "fresh (store_turn E h r w) = Suc (fresh w)"
    and "disk (store_turn E h r w)
         = save_history_to_file (write_raises E) (leftover E) (heap w h @ [reply_entry E r]) (disk w)"
    and "sent (store_turn E h r w) = sent w"
    and "translator_calls (store_turn E h r w) = translator_calls w"
  using assms
  by (simp_all add: store_turn_def list_append_def alloc_def reply_entry_def Let_def)

lemma process_command_effect:
  assumes "process_command L c w = (r, w')"
  shows "fresh w \<le> fresh w'" and "a < fresh w \<Longrightarrow> heap w' a = heap w a"
    and "disk w' = disk w" and "sent w' = sent w" and "translator_calls w' = translator_calls w"
  using assms
  by (auto simp: process_command_def alloc_def Let_def split: if_splits)

lemma session_get_history_effect:
  assumes "wf_world w" and "session_get_history w = (h, w0)"
  shows "h = turn_start w" and "heap w0 h = session_list w" and "h < fresh w0"
    and "disk w0 = disk w" and "sent w0 = sent w"
  using assms
  by (auto simp: session_get_history_def turn_start_def wf_world_def session_list_def alloc_def
      split: option.splits)

lemma dispatch_effect:
  assumes "dispatch L E u w = (r, w')"
  shows "fresh w \<le> fresh w'" and "a < fresh w \<Longrightarrow> heap w' a = heap w a"
    and "disk w' = disk w" and "sent w' = sent w"
  using assms process_command_effect [of L u w]
  by (auto simp: dispatch_def split: if_splits prod.splits)

lemma handle_message_cases:
  assumes wf: "wf_world w"
  shows "(\<exists>r w2. handle_message L E m w
                  = (store_turn E (turn_start w) r (w2\<lparr>sent := sent w2 @ [r]\<rparr>), None)
            \<and> heap w2 (turn_start w) = session_list w @ [user_entry E m]
            \<and> turn_start w < fresh w2 \<and> disk w2 = disk w \<and> sent w2 = sent w)
       \<or> (\<exists>e w2. handle_message L E m w = (w2, Some e))"
proof -
  obtain h w0 where g: "session_get_history w = (h, w0)" by fastforce
  note h0 = session_get_history_effect [OF wf g]
  define w1 where "w1 = list_append h (user_entry E m) w0"
  have h1: "heap w1 h = session_list w @ [user_entry E m]" "h < fresh w1" "disk w1 = disk w"
    "sent w1 = sent w"
    using h0 by (simp_all add: w1_def list_append_def)
  obtain r w2 where d: "dispatch L E (py_strip m) w1 = (r, w2)" by fastforce
  have h2: "heap w2 h = session_list w @ [user_entry E m]" "h < fresh w2" "disk w2 = disk w"
    "sent w2 = sent w"
    using dispatch_effect [OF d] h1 by simp_all
  have hm: "handle_message L E m w =
       (case r of
           Inl e \<Rightarrow> handle_except E h e w2
         | Inr response \<Rightarrow>
            (case send_try E of
               Some e \<Rightarrow> handle_except E h e w2
             | None \<Rightarrow> (store_turn E h response (w2\<lparr>sent := sent w2 @ [response]\<rparr>), None)))"
    using d by (simp add: handle_message_def g w1_def user_entry_def)
  show ?thesis
  proof (cases "snd (handle_message L E m w)")
    case None
    have "\<exists>r'. handle_message L E m w
               = (store_turn E h r' (w2\<lparr>sent := sent w2 @ [r']\<rparr>), None)"
      using hm None
      by (auto simp: handle_except_def Let_def split: sum.splits option.splits if_splits)
    with h2 h0(1) show ?thesis by blast
  next
    case (Some e)
    then have "handle_message L E m w = (fst (handle_message L E m w), Some e)"
      by (metis prod.collapse)
    then show ?thesis by blast
  qed
qed

lemma handle_message_completed:
  assumes "wf_world w" and "handle_message L E m w = (w', None)"
  obtains r where
    "session_list w' = last10 (session_list w @ [user_entry E m, reply_entry E r])"
    "disk w' = save_history_to_file (write_raises E) (leftover E)
                 (session_list w @ [user_entry E m, reply_entry E r]) (disk w)"
    "sent w' = sent w @ [r]" "wf_world w'" "session_history w' \<noteq> None"
proof -
  have "\<exists>r w2. handle_message L E m w = (store_turn E (turn_start w) r (w2\<lparr>sent := sent w2 @ [r]\<rparr>), None)
      \<and> heap w2 (turn_start w) = session_list w @ [user_entry E m]
      \<and> turn_start w < fresh w2 \<and> disk w2 = disk w \<and> sent w2 = sent w"
    using assms(2) handle_message_cases [OF assms(1), of L E m] by auto
  then obtain r w2 where
    hm: "handle_message L E m w = (store_turn E (turn_start w) r (w2\<lparr>sent := sent w2 @ [r]\<rparr>), None)"
    and h: "heap w2 (turn_start w) = session_list w @ [user_entry E m]"
    and f: "turn_start w < fresh w2" and d: "disk w2 = disk w" and s: "sent w2 = sent w"
    by blast
  let ?v = "w2\<lparr>sent := sent w2 @ [r]\<rparr>"
  have lt: "turn_start w < fresh ?v" using f by simp
  have w': "w' = store_turn E (turn_start w) r ?v"
    using hm assms(2) by simp
  show ?thesis
  proof (rule that [of r])
    show "session_list w' = last10 (session_list w @ [user_entry E m, reply_entry E r])"
      using store_turn_effect(1,2) [OF lt, of E r] h
      by (simp add: w' session_list_def)
    show "disk w' = save_history_to_file (write_raises E) (leftover E)
                 (session_list w @ [user_entry E m, reply_entry E r]) (disk w)"
      using store_turn_effect(5) [OF lt, of E r] h d by (simp add: w')
    show "sent w' = sent w @ [r]"
      using store_turn_effect(6) [OF lt, of E r] s by (simp add: w')
    show "wf_world w'"
      using store_turn_effect(1,4) [OF lt, of E r] by (simp add: w' wf_world_def)
    show "session_history w' \<noteq> None"
      using store_turn_effect(1) [OF lt, of E r] by (simp add: w')
  qed
qed

lemma length_last10: "length (last10 xs) = min 10 (length xs)"
  by (simp add: last10_def)

lemma session_get_history_translators:
  "session_get_history w = (h, w0) \<Longrightarrow> session_translators w0 = session_translators w"
  by (auto simp: session_get_history_def alloc_def split: option.splits)

lemma dispatch_returns:
  assumes "startswith (py_lower L u) (lit ''/'')
           \<or> (\<exists>r. fst (translate_text L (probe E) (session_translators w) u) = Inr r)"
  shows "\<exists>r. fst (dispatch L E u w) = Inr r"
  using assms by (auto simp: dispatch_def split: prod.splits)

text \<open>A turn completes whenever the reply can be sent and no exception leaves
  \<^verbatim>\<open>translate_text\<close>.\<close>

lemma handle_message_returns:
  assumes "send_try E = None"
    and "startswith (py_lower L (py_strip m)) (lit ''/'')
         \<or> (\<exists>r. fst (translate_text L (probe E) (session_translators w) (py_strip m)) = Inr r)"
  shows "snd (handle_message L E m w) = None"
proof -
  obtain h w0 where g: "session_get_history w = (h, w0)" by fastforce
  let ?w1 = "list_append h \<lparr>role = lit ''user'', content = py_strip m, timestamp = now_user E\<rparr> w0"
  have "session_translators ?w1 = session_translators w"
    using session_get_history_translators [OF g] by (simp add: list_append_def)
  with assms(2) obtain r where "fst (dispatch L E (py_strip m) ?w1) = Inr r"
    using dispatch_returns [of L "py_strip m" E ?w1] by auto
  then obtain w2 where d: "dispatch L E (py_strip m) ?w1 = (Inr r, w2)"
    by (metis prod.collapse)
  show ?thesis
    using assms(1) d by (simp add: handle_message_def g)
qed

text \<open>Every turn keeps the store well formed, also one that an exception leaves.\<close>

lemma process_command_wf:
  assumes "wf_world w" and "process_command L c w = (r, w')"
  shows "wf_world w'"
  using assms
  by (auto simp: process_command_def alloc_def Let_def wf_world_def split: if_splits option.splits)

lemma dispatch_wf:
  assumes "wf_world w" and "dispatch L E u w = (r, w')"
  shows "wf_world w'"
  using assms process_command_wf [of w L u]
  by (auto simp: dispatch_def wf_world_def split: if_splits prod.splits option.splits)

lemma store_turn_wf: "wf_world (store_turn E h r w)"
  by (simp add: store_turn_def alloc_def list_append_def wf_world_def Let_def)

lemma handle_except_wf: "wf_world w \<Longrightarrow> wf_world (fst (handle_except E h e w))"
  by (simp add: handle_except_def store_turn_wf Let_def split: option.splits sum.splits)

lemma handle_message_wf:
  assumes "wf_world w"
  shows "wf_world (fst (handle_message L E m w))"
proof -
  obtain h w0 where g: "session_get_history w = (h, w0)" by fastforce
  have w0: "wf_world w0"
    using assms g
    by (auto simp: session_get_history_def alloc_def wf_world_def split: option.splits)
  let ?w1 = "list_append h \<lparr>role = lit ''user'', content = py_strip m, timestamp = now_user E\<rparr> w0"
  have w1: "wf_world ?w1" using w0 by (simp add: list_append_def wf_world_def split: option.splits)
  obtain r w2 where d: "dispatch L E (py_strip m) ?w1 = (r, w2)" by fastforce
  have w2: "wf_world w2" using dispatch_wf [OF w1 d] .
  show ?thesis
    using d w2 handle_except_wf [OF w2, of E h]
    by (simp add: handle_message_def g store_turn_wf split: sum.splits option.splits)
qed

lemma run_turns_wf: "wf_world w \<Longrightarrow> wf_world (run_turns L ts w)"
  by (induction ts arbitrary: w) (auto simp: handle_message_wf)

lemma py_join_snoc: "xs \<noteq> [] \<Longrightarrow> py_join sep (xs @ [x]) = py_join sep xs @ sep @ x"
  by (induction xs rule: induct_list012) simp_all

lemma last_py_join: "x \<noteq> [] \<Longrightarrow> last (py_join sep (xs @ [x])) = last x"
  by (cases "xs = []") (simp_all add: py_join_snoc)

lemma history_listing_differs:
  "py_join [10] (map render (xs @ [\<lparr>role = lit ''user'', content = lit ''/history'', timestamp = t\<rparr>]))
   \<noteq> lit ''No translation history available.''"
proof -
  have "last (py_join [10] (map render xs @ [render \<lparr>role = lit ''user'', content = lit ''/history'', timestamp = t\<rparr>]))
        = last (render \<lparr>role = lit ''user'', content = lit ''/history'', timestamp = t\<rparr>)"
    by (rule last_py_join) (simp add: render_def)
  also have "\<dots> = 121" by (simp add: render_def)
  finally show ?thesis by auto
qed

lemma history_reply_is_listing:
  assumes "session_history w = Some a" and "a < fresh w" and "send_try E = None"
  shows "sent (fst (handle_message L E (lit ''/history'') w)) = sent w @ [r]
         \<Longrightarrow> r \<noteq> lit ''No translation history available.''"
  using assms history_listing_differs [of "heap w a" "now_user E"]
  by (auto simp: handle_message_def session_get_history_def dispatch_def process_command_def
      list_append_def store_turn_def alloc_def Let_def
      py_lower_def py_strip_def startswith_def ascii_lower_def py_isspace_def)

text \<open>
  In every session, whatever it holds: when both replies can be sent, \<^verbatim>\<open>/clear\<close>
  leaves a history that is not empty, and the reply to the \<^verbatim>\<open>/history\<close> that follows
  is not the fixed message for an empty history.
\<close>

lemma clear_then_history_any_session:
  assumes "wf_world w" and "send_try E1 = None" and "send_try E2 = None"
  shows "\<exists>r1 r2. sent (run_turns L [(E1, lit ''/clear''), (E2, lit ''/history'')] w) = sent w @ [r1, r2]
           \<and> r2 \<noteq> lit ''No translation history available.''
           \<and> session_list (fst (handle_message L E1 (lit ''/clear'') w)) \<noteq> []"
proof -
  let ?w1 = "fst (handle_message L E1 (lit ''/clear'') w)"
  let ?w2 = "fst (handle_message L E2 (lit ''/history'') ?w1)"
  have slash: "startswith (py_lower L (py_strip (lit ''/clear''))) (lit ''/'')"
    "startswith (py_lower L (py_strip (lit ''/history''))) (lit ''/'')"
    by (simp_all add: py_lower_def py_strip_def startswith_def ascii_lower_def py_isspace_def)
  have c1: "handle_message L E1 (lit ''/clear'') w = (?w1, None)"
    using handle_message_returns [OF assms(2), of L "lit ''/clear''" w] slash
    by (metis prod.collapse)
  obtain r1 where 1: "sent ?w1 = sent w @ [r1]" "wf_world ?w1" "session_history ?w1 \<noteq> None"
    "session_list ?w1 = last10 (session_list w @ [user_entry E1 (lit ''/clear''), reply_entry E1 r1])"
    using handle_message_completed [OF assms(1) c1] by blast
  obtain a where a: "session_history ?w1 = Some a" "a < fresh ?w1"
    using 1(2,3) by (auto simp: wf_world_def)
  have c2: "handle_message L E2 (lit ''/history'') ?w1 = (?w2, None)"
    using handle_message_returns [OF assms(3), of L "lit ''/history''" ?w1] slash
    by (metis prod.collapse)
  obtain r2 where 2: "sent ?w2 = sent ?w1 @ [r2]"
    using handle_message_completed [OF 1(2) c2] by blast
  have "r2 \<noteq> lit ''No translation history available.''"
    using history_reply_is_listing [OF a assms(3) 2] .
  moreover have "session_list ?w1 \<noteq> []"
    using 1(4) by (simp add: last10_def)
  ultimately show ?thesis using 1(1) 2 by simp
qed

section \<open>Concrete runs\<close>

lemmas turn_defs = handle_message_def session_get_history_def dispatch_def process_command_def
  store_turn_def alloc_def list_append_def py_lower_def py_strip_def startswith_def
  ascii_lower_def py_isspace_def last10_def render_def handle_except_def

lemmas run_defs = turn_defs translate_text_def translate_text_try_def validate_input_iff class_defs
  detect_language_def re_search_def ascii_letter_def tr_hello_def tr_salam_def
  w_ready_def E_ok_def Let_def session_list_def hello_turn_def

lemma valid_hello: "valid_entry hello_user" "valid_entry hello_reply"
  by (simp_all add: valid_entry_def hello_user_def hello_reply_def)

lemma seven_turns_disk:
  "disk (run_turns sample_lib
     [hello_turn, hello_turn, hello_turn, hello_turn, hello_turn, hello_turn, hello_turn] w_ready)
   = Some (json_dumps [hello_user, hello_reply, hello_user, hello_reply, hello_user, hello_reply,
       hello_user, hello_reply, hello_user, hello_reply, hello_user, hello_reply])"
  by (simp add: run_defs hello_user_def hello_reply_def save_succeeds valid_entry_def)

lemma wf_w_ready: "wf_world w_ready"
  by (simp add: wf_world_def w_ready_def)

lemma wf_w_full: "wf_world w_full"
  by (simp add: wf_world_def w_full_def)

lemma session_list_w_full: "session_list w_full = map numbered [0, 1, 2, 3, 4, 5, 6, 7, 8, 9]"
  by (simp add: session_list_def w_full_def)

lemmas full_defs = run_defs w_full_def E_send_fails_def E_sends_fail_def hello_user_def
  hello_reply_def error_reply_def numbered_def

text \<open>One turn on the session of ten entries: by the \<^verbatim>\<open>try\<close> block, and by the
  \<^verbatim>\<open>except\<close> block when the first \<^verbatim>\<open>send\<close> raises.\<close>

lemma w_full_hello:
  "snd (handle_message sample_lib E_ok (lit ''Hello'') w_full) = None"
  "session_list (fst (handle_message sample_lib E_ok (lit ''Hello'') w_full))
   = map numbered [2, 3, 4, 5, 6, 7, 8, 9] @ [hello_user, hello_reply]"
  "disk (fst (handle_message sample_lib E_ok (lit ''Hello'') w_full))
   = Some (json_dumps (map numbered [0, 1, 2, 3, 4, 5, 6, 7, 8, 9] @ [hello_user, hello_reply]))"
  by (simp_all add: full_defs save_succeeds valid_entry_def)

lemma w_full_hello_send_fails:
  "snd (handle_message sample_lib E_send_fails (lit ''Hello'') w_full) = None"
  "session_list (fst (handle_message sample_lib E_send_fails (lit ''Hello'') w_full))
   = map numbered [2, 3, 4, 5, 6, 7, 8, 9] @ [hello_user, error_reply]"
  by (simp_all add: full_defs save_succeeds valid_entry_def)

text \<open>Two turns on it, the second by the \<^verbatim>\<open>except\<close> block.\<close>

lemma w_full_two_turns:
  "snd (handle_message sample_lib E_send_fails (lit ''Hello'')
          (fst (handle_message sample_lib E_ok (lit ''Hello'') w_full))) = None"
  "disk (fst (handle_message sample_lib E_send_fails (lit ''Hello'')
          (fst (handle_message sample_lib E_ok (lit ''Hello'') w_full))))
   = Some (json_dumps (map numbered [2, 3, 4, 5, 6, 7, 8, 9]
                        @ [hello_user, hello_reply, hello_user, error_reply]))"
  by (simp_all add: full_defs save_succeeds valid_entry_def)

text \<open>
  A turn that an exception leaves, both \<^verbatim>\<open>send\<close> calls raising: the user entry stays in
  the session's list, which then holds eleven entries.
\<close>

lemma w_full_hello_aborted:
  "snd (handle_message sample_lib E_sends_fail (lit ''Hello'') w_full)
   = Some (Raised (lit ''connection lost''))"
  "session_list (fst (handle_message sample_lib E_sends_fail (lit ''Hello'') w_full))
   = map numbered [0, 1, 2, 3, 4, 5, 6, 7, 8, 9] @ [hello_user]"
  by (simp_all add: full_defs)

section \<open>Validator and detector claims\<close>

text \<open>
  C4. For every string: when it has a code point in U+0600 to U+06FF, \<^verbatim>\<open>detect_language\<close>
  returns \<^verbatim>\<open>'ur'\<close>, whatever Latin letters it has too; otherwise, when it has a letter
  a to z or A to Z, it returns \<^verbatim>\<open>'en'\<close>; otherwise it returns \<^verbatim>\<open>'unknown'\<close>.
\<close>

theorem detect_language_tie_break:
  "detect_language s =
     (if \<exists>c\<in>set s. 0x600 \<le> c \<and> c \<le> 0x6FF then lit ''ur''
      else if \<exists>c\<in>set s. (97 \<le> c \<and> c \<le> 122) \<or> (65 \<le> c \<and> c \<le> 90) then lit ''en''
      else lit ''unknown'')"
proof -
  have "re_search cls s \<noteq> None \<longleftrightarrow> (\<exists>c\<in>set s. cls c)" for cls
    by (auto simp: re_search_def find_None_iff)
  then show ?thesis
    by (simp add: detect_language_def re_search_def arabic_block_def ascii_letter_def)
qed

text \<open>
  C4 at three inputs: \<^verbatim>\<open>Hello\<close> followed by a space and the Urdu word (U+0633 U+0644
  U+0627 U+0645) is Urdu, \<^verbatim>\<open>Hello\<close> is English, \<^verbatim>\<open>123\<close> is unknown.
\<close>

theorem detect_language_tie_break_witness:
  "detect_language (lit ''Hello '' @ [1587, 1604, 1575, 1605]) = lit ''ur''
   \<and> detect_language (lit ''Hello'') = lit ''en''
   \<and> detect_language (lit ''123'') = lit ''unknown''"
  using detect_language_tie_break [of "lit ''Hello '' @ [1587, 1604, 1575, 1605]"]
    detect_language_tie_break [of "lit ''Hello''"]
    detect_language_tie_break [of "lit ''123''"]
  by simp

text \<open>
  C7 as stated fails. It gives the second alternative the same punctuation set as the
  first, but the second character class has only \<^verbatim>\<open>. , ! ?\<close>. The Arabic comma U+060C
  (1548, not a word character) followed by a hyphen (45) matches the alternative as the
  claim words it, and \<^verbatim>\<open>validate_input\<close> rejects it.
\<close>

theorem validate_claimed_counterexample:
  "validate_claimed sample_lib [1548, 45] \<and> \<not> validate_input sample_lib [1548, 45]"
  by (simp add: validate_claimed_def validate_input_iff class_defs)

text \<open>
  C7, amended. \<^verbatim>\<open>validate_input\<close> is false on the empty string and on a string of white
  space only. Otherwise it is true exactly when every code point of the string is (a) a
  word character, white space or one of \<^verbatim>\<open>. , ! ? ' " -\<close>, or every code point is (b) in
  U+0600 to U+06FF, white space or one of \<^verbatim>\<open>. , ! ?\<close>. It is false on the empty string
  and on three spaces, and true on \<^verbatim>\<open>Hello, world!\<close> and on the Urdu word U+0633 U+0644
  U+0627 U+0645.
\<close>

theorem validate_input_classes:
  "(validate_input L s \<longleftrightarrow>
      s \<noteq> [] \<and> \<not> list_all (py_isspace) s
      \<and> (list_all (\<lambda>c. re_word L c \<or> py_isspace c \<or> c \<in> {46, 44, 33, 63, 39, 34, 45}) s
         \<or> list_all (\<lambda>c. (0x600 \<le> c \<and> c \<le> 0x6FF) \<or> py_isspace c \<or> c \<in> {46, 44, 33, 63}) s))
   \<and> \<not> validate_input L [] \<and> \<not> validate_input L (lit ''   '')
   \<and> validate_input L (lit ''Hello, world!'') \<and> validate_input L [1587, 1604, 1575, 1605]"
proof -
  have "latin_class L = (\<lambda>c. re_word L c \<or> py_isspace c \<or> c \<in> {46, 44, 33, 63, 39, 34, 45})"
    "urdu_class = (\<lambda>c. (0x600 \<le> c \<and> c \<le> 0x6FF) \<or> py_isspace c \<or> c \<in> {46, 44, 33, 63})"
    by (auto simp: latin_class_def urdu_class_def arabic_block_def)
  then have "validate_input L s \<longleftrightarrow>
      s \<noteq> [] \<and> \<not> list_all (py_isspace) s
      \<and> (list_all (\<lambda>c. re_word L c \<or> py_isspace c \<or> c \<in> {46, 44, 33, 63, 39, 34, 45}) s
         \<or> list_all (\<lambda>c. (0x600 \<le> c \<and> c \<le> 0x6FF) \<or> py_isspace c \<or> c \<in> {46, 44, 33, 63}) s)"
    by (auto simp: validate_input_iff)
  moreover have "\<not> validate_input L []" "\<not> validate_input L (lit ''   '')"
    "validate_input L (lit ''Hello, world!'')" "validate_input L [1587, 1604, 1575, 1605]"
    by (simp_all add: validate_input_iff class_defs)
  ultimately show ?thesis by blast
qed

text \<open>
  C7, amended, at concrete inputs, the rejected Arabic comma with hyphen among them.
\<close>

theorem validate_input_classes_witness:
  "validate_input sample_lib (lit ''Hello, world!'') \<and> validate_input sample_lib [1587, 1604, 1575, 1605]
   \<and> \<not> validate_input sample_lib [1548, 45] \<and> \<not> validate_input sample_lib (lit ''   '')"
  using validate_input_classes [of sample_lib "[1548, 45]"]
  by (simp add: class_defs)

text \<open>
  C10 as stated fails: three spaces are a non-empty string made of the allowed white
  space only, and \<^verbatim>\<open>validate_input\<close> rejects it.
\<close>

theorem blank_counterexample:
  "lit ''   '' \<noteq> [] \<and> list_all (latin_class sample_lib) (lit ''   '')
   \<and> \<not> validate_input sample_lib (lit ''   '')"
  by (simp add: validate_input_iff class_defs)

text \<open>
  C10, amended. \<^verbatim>\<open>validate_input\<close> is true for every string that is made only of
  Unicode word characters of any script, the marks \<^verbatim>\<open>. , ! ? ' " -\<close> and white space, and
  that is not made of white space alone. Mixed English and Urdu text is accepted.
\<close>

theorem validate_input_word_strings:
  assumes "list_all (latin_class L) s" and "\<not> list_all (py_isspace) s"
  shows "validate_input L s"
  using assms by (simp add: validate_input_iff)

text \<open>
  C10, amended, at \<^verbatim>\<open>Hello\<close>, a space and the Urdu word U+0633 U+0644 U+0627 U+0645.
\<close>

theorem validate_input_word_strings_witness:
  "list_all (latin_class sample_lib) (lit ''Hello '' @ [1587, 1604, 1575, 1605])
   \<and> \<not> list_all (py_isspace) (lit ''Hello '' @ [1587, 1604, 1575, 1605])
   \<and> validate_input sample_lib (lit ''Hello '' @ [1587, 1604, 1575, 1605])"
proof -
  have a: "list_all (latin_class sample_lib) (lit ''Hello '' @ [1587, 1604, 1575, 1605])"
    by (simp add: class_defs)
  have b: "\<not> list_all (py_isspace) (lit ''Hello '' @ [1587, 1604, 1575, 1605])"
    by (simp add: class_defs)
  from a b validate_input_word_strings [OF a b] show ?thesis by blast
qed

section \<open>Dispatcher claims\<close>

text \<open>
  The order of the checks. \<^verbatim>\<open>translate_text\<close> checks, in this order: the translators
  are initialised, \<^verbatim>\<open>check_internet\<close> returns true, the input is valid, the language is
  detected. The first check that fails decides the reply, one fixed string per check, the
  four strings distinct, and no call is made to the translation collaborator. When
  \<^verbatim>\<open>check_internet\<close> returns false the reply is
  \<^verbatim>\<open>Error: No internet connection. Please check your network.\<close>
  When it raises instead, no call is made to the collaborator either.
\<close>

theorem translate_text_precondition_order:
  "translate_text L net None text = (Inr (lit ''Error: Translators not initialized.''), [])
   \<and> translate_text L net (Some []) text = (Inr (lit ''Error: Translators not initialized.''), [])
   \<and> (check_internet net = Inr False \<longrightarrow>
        translate_text L net (Some (t # ts)) text
        = (Inr (lit ''Error: No internet connection. Please check your network.''), []))
   \<and> (check_internet net = Inr True \<and> \<not> validate_input L text \<longrightarrow>
        translate_text L net (Some (t # ts)) text
        = (Inr (lit ''Error: Please provide valid English or Urdu text.''), []))
   \<and> (check_internet net = Inr True \<and> validate_input L text
        \<and> detect_language text = lit ''unknown'' \<longrightarrow>
        translate_text L net (Some (t # ts)) text
        = (Inr (lit ''Error: Unable to detect language. Use clear English or Urdu text.''), []))
   \<and> (check_internet net = Inl e \<longrightarrow> snd (translate_text L net (Some (t # ts)) text) = [])
   \<and> distinct [lit ''Error: Translators not initialized.'',
        lit ''Error: No internet connection. Please check your network.'',
        lit ''Error: Please provide valid English or Urdu text.'',
        lit ''Error: Unable to detect language. Use clear English or Urdu text.'']"
  by (simp add: translate_text_def translate_text_try_def split: sum.splits)

text \<open>
  The order of the checks at concrete inputs: a probe that times out; the invalid text
  \<^verbatim>\<open>a+b\<close>; the valid text \<^verbatim>\<open>123\<close>, whose language is unknown.
\<close>

theorem translate_text_precondition_order_witness:
  "check_internet (Unreachable (Raised (lit ''timed out''))) = Inr False
   \<and> translate_text sample_lib (Unreachable (Raised (lit ''timed out'')))
        (Some [(lit ''en_to_ur'', tr_hello)]) (lit ''Hello'')
      = (Inr (lit ''Error: No internet connection. Please check your network.''), [])
   \<and> check_internet Connected = Inr True \<and> \<not> validate_input sample_lib (lit ''a+b'')
   \<and> translate_text sample_lib Connected (Some [(lit ''en_to_ur'', tr_hello)]) (lit ''a+b'')
      = (Inr (lit ''Error: Please provide valid English or Urdu text.''), [])
   \<and> validate_input sample_lib (lit ''123'') \<and> detect_language (lit ''123'') = lit ''unknown''
   \<and> translate_text sample_lib Connected (Some [(lit ''en_to_ur'', tr_hello)]) (lit ''123'')
      = (Inr (lit ''Error: Unable to detect language. Use clear English or Urdu text.''), [])"
proof -
  have v: "\<not> validate_input sample_lib (lit ''a+b'')" "validate_input sample_lib (lit ''123'')"
    by (simp_all add: validate_input_iff class_defs)
  have d: "detect_language (lit ''123'') = lit ''unknown''"
    by (simp add: detect_language_def re_search_def arabic_block_def ascii_letter_def)
  show ?thesis
    using v d
      translate_text_precondition_order [of sample_lib "Unreachable (Raised (lit ''timed out''))"
        "lit ''Hello''" "(lit ''en_to_ur'', tr_hello)" "[]"]
      translate_text_precondition_order [of sample_lib Connected "lit ''a+b''"
        "(lit ''en_to_ur'', tr_hello)" "[]"]
      translate_text_precondition_order [of sample_lib Connected "lit ''123''"
        "(lit ''en_to_ur'', tr_hello)" "[]"]
    by simp
qed

text \<open>
  C5 on the code: the connection is refused. \<^verbatim>\<open>socket.create_connection\<close> raises
  \<^verbatim>\<open>ConnectionRefusedError\<close>, which is neither \<^verbatim>\<open>socket.gaierror\<close> nor
  \<^verbatim>\<open>socket.timeout\<close>, so \<^verbatim>\<open>check_internet\<close> raises where its docstring says it returns
  false. The reply of \<^verbatim>\<open>translate_text\<close> is then not the fixed string for missing
  connectivity but the one of its \<^verbatim>\<open>except\<close> handler, with the text of the exception;
  no call is made to the translation collaborator.
\<close>

theorem probe_refused_generic_reply:
  "check_internet (ConnFailure (Raised (lit ''[Errno 111] Connection refused'')))
   = Inl (Raised (lit ''[Errno 111] Connection refused''))
   \<and> translate_text sample_lib (ConnFailure (Raised (lit ''[Errno 111] Connection refused'')))
        (Some [(lit ''en_to_ur'', tr_hello), (lit ''ur_to_en'', tr_salam)]) (lit ''Hello'')
     = (Inr (lit ''Error: Unable to translate. Check your internet connection. ([Errno 111] Connection refused)''),
        [])
   \<and> lit ''Error: Unable to translate. Check your internet connection. ([Errno 111] Connection refused)''
     \<noteq> lit ''Error: No internet connection. Please check your network.''"
  by (simp add: translate_text_def translate_text_try_def)

text \<open>
  C6. When the probe succeeds, the input is valid, and the translator for the detected
  language is there and returns a text: for English input \<^verbatim>\<open>translate_text\<close> calls the
  \<^verbatim>\<open>en_to_ur\<close> translator, once, on the input, and returns \<^verbatim>\<open>Translation to Urdu: \<close>
  followed by the returned text; for Urdu input it calls \<^verbatim>\<open>ur_to_en\<close> and returns
  \<^verbatim>\<open>Translation to English: \<close> followed by the returned text.
\<close>

theorem translate_text_success:
  assumes "check_internet net = Inr True" and "validate_input L text"
    and "map_of (t # ts) (if detect_language text = lit ''en'' then lit ''en_to_ur'' else lit ''ur_to_en'')
         = Some tr"
    and "tr text = Inr translated"
  shows "(detect_language text = lit ''en'' \<longrightarrow>
            translate_text L net (Some (t # ts)) text
            = (Inr (lit ''Translation to Urdu: '' @ translated), [(lit ''en_to_ur'', text)]))
       \<and> (detect_language text = lit ''ur'' \<longrightarrow>
            translate_text L net (Some (t # ts)) text
            = (Inr (lit ''Translation to English: '' @ translated), [(lit ''ur_to_en'', text)]))"
  using assms by (auto simp: translate_text_def translate_text_try_def Let_def)

text \<open>
  C6 end to end: \<^verbatim>\<open>Hello\<close> with a translator that returns U+06C1 U+06CC U+0644 U+0648,
  and U+0633 U+0644 U+0627 U+0645 with a translator that returns \<^verbatim>\<open>Hello\<close>.
\<close>

theorem translate_text_success_witness:
  "translate_text sample_lib Connected
     (Some [(lit ''en_to_ur'', tr_hello), (lit ''ur_to_en'', tr_salam)]) (lit ''Hello'')
   = (Inr (lit ''Translation to Urdu: '' @ [1729, 1740, 1604, 1608]), [(lit ''en_to_ur'', lit ''Hello'')])
   \<and> translate_text sample_lib Connected
     (Some [(lit ''en_to_ur'', tr_hello), (lit ''ur_to_en'', tr_salam)]) [1587, 1604, 1575, 1605]
   = (Inr (lit ''Translation to English: Hello''), [(lit ''ur_to_en'', [1587, 1604, 1575, 1605])])"
proof -
  have n: "check_internet Connected = Inr True" by simp
  have v: "validate_input sample_lib (lit ''Hello'')" "validate_input sample_lib [1587, 1604, 1575, 1605]"
    by (simp_all add: validate_input_iff class_defs)
  have d: "detect_language (lit ''Hello'') = lit ''en''" "detect_language [1587, 1604, 1575, 1605] = lit ''ur''"
    by (simp_all add: detect_language_def re_search_def arabic_block_def ascii_letter_def)
  have m1: "map_of ((lit ''en_to_ur'', tr_hello) # [(lit ''ur_to_en'', tr_salam)])
       (if detect_language (lit ''Hello'') = lit ''en'' then lit ''en_to_ur'' else lit ''ur_to_en'')
       = Some tr_hello"
    using d by simp
  have m2: "map_of ((lit ''en_to_ur'', tr_hello) # [(lit ''ur_to_en'', tr_salam)])
       (if detect_language [1587, 1604, 1575, 1605] = lit ''en'' then lit ''en_to_ur'' else lit ''ur_to_en'')
       = Some tr_salam"
    using d by simp
  have t1: "tr_hello (lit ''Hello'') = Inr [1729, 1740, 1604, 1608]" by (simp add: tr_hello_def)
  have t2: "tr_salam [1587, 1604, 1575, 1605] = Inr (lit ''Hello'')" by (simp add: tr_salam_def)
  show ?thesis
    using translate_text_success [OF n v(1) m1 t1] translate_text_success [OF n v(2) m2 t2] d
    by simp
qed

text \<open>
  C9 as stated fails. A translator that raises \<^verbatim>\<open>KeyboardInterrupt\<close>, which is not an
  instance of \<^verbatim>\<open>Exception\<close>, and one that raises an exception whose \<^verbatim>\<open>__str__\<close> raises:
  in both runs an exception leaves \<^verbatim>\<open>translate_text\<close>.
\<close>

theorem translate_text_propagates_counterexample:
  "translate_text sample_lib Connected (Some [(lit ''en_to_ur'', tr_interrupt)]) (lit ''Hello'')
   = (Inl (Interrupt []), [(lit ''en_to_ur'', lit ''Hello'')])
   \<and> translate_text sample_lib Connected (Some [(lit ''en_to_ur'', tr_unprintable)]) (lit ''Hello'')
   = (Inl (Raised (lit ''no text'')), [(lit ''en_to_ur'', lit ''Hello'')])"
  by (simp add: translate_text_def translate_text_try_def validate_input_iff class_defs
      detect_language_def re_search_def arabic_block_def ascii_letter_def
      tr_interrupt_def tr_unprintable_def)

text \<open>
  C9, amended. An exception \<open>e\<close> raised in the body of \<^verbatim>\<open>translate_text\<close>, in particular
  by the call to the translator, that is an instance of \<^verbatim>\<open>Exception\<close> and whose
  \<^verbatim>\<open>str(e)\<close> returns \<open>m\<close>, becomes the reply
  \<^verbatim>\<open>Error: Unable to translate. Check your internet connection. (m)\<close>
  When every exception the body can raise is of that kind, \<^verbatim>\<open>translate_text\<close> returns a
  string. An exception that is not an instance of \<^verbatim>\<open>Exception\<close> leaves
  \<^verbatim>\<open>translate_text\<close>, and so does what \<^verbatim>\<open>str(e)\<close> raises.
\<close>

theorem translate_text_catches:
  "(fst (translate_text_try L net translators text) = Inl e \<and> is_exception e \<and> exn_str e = Inr m \<longrightarrow>
        fst (translate_text L net translators text)
        = Inr (lit ''Error: Unable to translate. Check your internet connection. ('' @ m @ lit '')''))
   \<and> (check_internet net = Inr True \<and> validate_input L text
        \<and> detect_language text \<noteq> lit ''unknown''
        \<and> map_of (t # ts) (if detect_language text = lit ''en'' then lit ''en_to_ur'' else lit ''ur_to_en'')
           = Some tr
        \<and> tr text = Inl e \<and> is_exception e \<and> exn_str e = Inr m \<longrightarrow>
        translate_text L net (Some (t # ts)) text
        = (Inr (lit ''Error: Unable to translate. Check your internet connection. ('' @ m @ lit '')''),
           [(if detect_language text = lit ''en'' then lit ''en_to_ur'' else lit ''ur_to_en'', text)]))
   \<and> ((\<forall>e'. fst (translate_text_try L net translators text) = Inl e' \<longrightarrow>
             is_exception e' \<and> (\<exists>m'. exn_str e' = Inr m')) \<longrightarrow>
        (\<exists>r. fst (translate_text L net translators text) = Inr r))
   \<and> (fst (translate_text_try L net translators text) = Inl e \<and> \<not> is_exception e \<longrightarrow>
        fst (translate_text L net translators text) = Inl e)
   \<and> (fst (translate_text_try L net translators text) = Inl e \<and> is_exception e \<and> exn_str e = Inl e2 \<longrightarrow>
        fst (translate_text L net translators text) = Inl e2)"
proof -
  obtain b calls where b: "translate_text_try L net translators text = (b, calls)"
    by fastforce
  have 1: "fst (translate_text_try L net translators text) = Inl e \<and> is_exception e \<and> exn_str e = Inr m \<longrightarrow>
        fst (translate_text L net translators text)
        = Inr (lit ''Error: Unable to translate. Check your internet connection. ('' @ m @ lit '')'')"
    using b by (auto simp: translate_text_def)
  have 2: "check_internet net = Inr True \<and> validate_input L text
        \<and> detect_language text \<noteq> lit ''unknown''
        \<and> map_of (t # ts) (if detect_language text = lit ''en'' then lit ''en_to_ur'' else lit ''ur_to_en'')
           = Some tr
        \<and> tr text = Inl e \<and> is_exception e \<and> exn_str e = Inr m \<longrightarrow>
        translate_text L net (Some (t # ts)) text
        = (Inr (lit ''Error: Unable to translate. Check your internet connection. ('' @ m @ lit '')''),
           [(if detect_language text = lit ''en'' then lit ''en_to_ur'' else lit ''ur_to_en'', text)])"
    by (auto simp: translate_text_def translate_text_try_def Let_def)
  have 3: "(\<forall>e'. fst (translate_text_try L net translators text) = Inl e' \<longrightarrow>
             is_exception e' \<and> (\<exists>m'. exn_str e' = Inr m')) \<longrightarrow>
        (\<exists>r. fst (translate_text L net translators text) = Inr r)"
    using b by (cases b) (auto simp: translate_text_def)
  have 4: "fst (translate_text_try L net translators text) = Inl e \<and> \<not> is_exception e \<longrightarrow>
        fst (translate_text L net translators text) = Inl e"
    using b by (auto simp: translate_text_def)
  have 5: "fst (translate_text_try L net translators text) = Inl e \<and> is_exception e \<and> exn_str e = Inl e2 \<longrightarrow>
        fst (translate_text L net translators text) = Inl e2"
    using b by (auto simp: translate_text_def)
  from 1 2 3 4 5 show ?thesis by blast
qed

text \<open>
  C9, amended, at concrete inputs: a translator that raises an \<^verbatim>\<open>Exception\<close> with a
  text, a missing \<^verbatim>\<open>ur_to_en\<close> key, and a translator that raises \<^verbatim>\<open>KeyboardInterrupt\<close>.
\<close>

theorem translate_text_catches_witness:
  "translate_text sample_lib Connected (Some [(lit ''en_to_ur'', tr_down)]) (lit ''Hello'')
   = (Inr (lit ''Error: Unable to translate. Check your internet connection. (Request failed)''),
      [(lit ''en_to_ur'', lit ''Hello'')])
   \<and> fst (translate_text sample_lib Connected (Some [(lit ''en_to_ur'', tr_down)]) [1587, 1604, 1575, 1605])
     = Inr (lit ''Error: Unable to translate. Check your internet connection. ('' @ [39] @ lit ''ur_to_en'' @ [39] @ lit '')'')
   \<and> fst (translate_text sample_lib Connected (Some [(lit ''en_to_ur'', tr_interrupt)]) (lit ''Hello''))
     = Inl (Interrupt [])"
proof -
  have v: "validate_input sample_lib (lit ''Hello'')" "validate_input sample_lib [1587, 1604, 1575, 1605]"
    by (simp_all add: validate_input_iff class_defs)
  have d: "detect_language (lit ''Hello'') = lit ''en''" "detect_language [1587, 1604, 1575, 1605] = lit ''ur''"
    by (simp_all add: detect_language_def re_search_def arabic_block_def ascii_letter_def)
  have k: "fst (translate_text_try sample_lib Connected (Some [(lit ''en_to_ur'', tr_down)])
             [1587, 1604, 1575, 1605]) = Inl (KeyError (lit ''ur_to_en''))"
    using v d by (simp add: translate_text_try_def)
  have i: "fst (translate_text_try sample_lib Connected (Some [(lit ''en_to_ur'', tr_interrupt)])
             (lit ''Hello'')) = Inl (Interrupt [])"
    using v d by (simp add: translate_text_try_def tr_interrupt_def)
  show ?thesis
    using v d k i
      translate_text_catches [of sample_lib Connected "Some [(lit ''en_to_ur'', tr_down)]"
        "[1587, 1604, 1575, 1605]" "KeyError (lit ''ur_to_en'')" "[39] @ lit ''ur_to_en'' @ [39]"]
      translate_text_catches [of sample_lib Connected "Some [(lit ''en_to_ur'', tr_down)]"
        "lit ''Hello''" "Raised (lit ''Request failed'')" "lit ''Request failed''"
        "(lit ''en_to_ur'', tr_down)" "[]" tr_down]
      translate_text_catches [of sample_lib Connected "Some [(lit ''en_to_ur'', tr_interrupt)]"
        "lit ''Hello''" "Interrupt []"]
    by (simp add: tr_down_def)
qed

section \<open>History claims\<close>

text \<open>
  C8. For every list \<open>H\<close> of valid history entries: when the write and the read raise no
  error, \<^verbatim>\<open>load_history_from_file\<close> on the file that \<^verbatim>\<open>save_history_to_file\<close> leaves
  returns \<open>H\<close>, whatever the file held before and whatever the library does with other
  documents.
\<close>

theorem history_round_trip:
  assumes "\<forall>e\<in>set H. valid_entry e" and "\<not> write_fails" and "\<not> read_fails"
  shows "load_history_from_file L read_fails (save_history_to_file write_fails left H d) = H"
  using assms by (simp add: save_succeeds load_dumps list_all_iff)

text \<open>
  C8 at a history of two entries, one with Urdu text, saved over an existing file.
\<close>

theorem history_round_trip_witness:
  "valid_entry \<lparr>role = lit ''user'', content = [1587, 1604, 1575, 1605], timestamp = lit ''2024-01-01 10:00:00''\<rparr>
   \<and> valid_entry \<lparr>role = lit ''assistant'', content = lit ''Translation to English: Hello'',
        timestamp = lit ''2024-01-01 10:00:01''\<rparr>
   \<and> load_history_from_file sample_lib False (save_history_to_file False None
       [\<lparr>role = lit ''user'', content = [1587, 1604, 1575, 1605], timestamp = lit ''2024-01-01 10:00:00''\<rparr>,
        \<lparr>role = lit ''assistant'', content = lit ''Translation to English: Hello'', timestamp = lit ''2024-01-01 10:00:01''\<rparr>]
       (Some (lit ''[]'')))
     = [\<lparr>role = lit ''user'', content = [1587, 1604, 1575, 1605], timestamp = lit ''2024-01-01 10:00:00''\<rparr>,
        \<lparr>role = lit ''assistant'', content = lit ''Translation to English: Hello'', timestamp = lit ''2024-01-01 10:00:01''\<rparr>]"
proof -
  have v: "\<forall>e\<in>set [\<lparr>role = lit ''user'', content = [1587, 1604, 1575, 1605], timestamp = lit ''2024-01-01 10:00:00''\<rparr>,
       \<lparr>role = lit ''assistant'', content = lit ''Translation to English: Hello'', timestamp = lit ''2024-01-01 10:00:01''\<rparr>]. valid_entry e"
    by (simp add: valid_entry_def)
  show ?thesis
    using v history_round_trip [OF v, of False False sample_lib None "Some (lit ''[]'')"]
    by simp
qed

text \<open>
  C3. For every message: when the turn completes, the history the session then holds
  has at most 10 entries, and it is the last 10 (or all, when there are fewer) of the
  list before truncation, in their order: the history at the start of the turn, the
  user entry, the assistant entry.
\<close>

theorem session_history_capped:
  assumes "wf_world w" and "handle_message L E m w = (w', None)"
  shows "length (session_list w') \<le> 10
     \<and> (\<exists>reply. let pre = session_list w
                        @ [\<lparr>role = lit ''user'', content = py_strip m, timestamp = now_user E\<rparr>,
                           \<lparr>role = lit ''assistant'', content = reply, timestamp = now_reply E\<rparr>]
                 in session_list w' = drop (length pre - 10) pre \<and> suffix (session_list w') pre)"
proof -
  obtain r where r: "session_list w' = last10 (session_list w @ [user_entry E m, reply_entry E r])"
    using handle_message_completed [OF assms] by blast
  then have "length (session_list w') \<le> 10" by (simp add: length_last10)
  moreover from r have "let pre = session_list w
                        @ [\<lparr>role = lit ''user'', content = py_strip m, timestamp = now_user E\<rparr>,
                           \<lparr>role = lit ''assistant'', content = r, timestamp = now_reply E\<rparr>]
                 in session_list w' = drop (length pre - 10) pre \<and> suffix (session_list w') pre"
    by (simp add: last10_def user_entry_def reply_entry_def Let_def suffix_drop)
  ultimately show ?thesis by blast
qed

text \<open>
  C3 at a session that holds ten entries, numbered 0 to 9, once by the \<^verbatim>\<open>try\<close> block and
  once by the \<^verbatim>\<open>except\<close> block (the first \<^verbatim>\<open>send\<close> raises): entries 0 and 1 are dropped,
  entries 2 to 9 and the two new ones stay, in their order.
\<close>

theorem session_history_capped_witness:
  "wf_world w_full
   \<and> session_list w_full = map numbered [0, 1, 2, 3, 4, 5, 6, 7, 8, 9]
   \<and> snd (handle_message sample_lib E_ok (lit ''Hello'') w_full) = None
   \<and> session_list (fst (handle_message sample_lib E_ok (lit ''Hello'') w_full))
     = map numbered [2, 3, 4, 5, 6, 7, 8, 9] @ [hello_user, hello_reply]
   \<and> length (session_list (fst (handle_message sample_lib E_ok (lit ''Hello'') w_full))) \<le> 10
   \<and> (\<exists>reply. let pre = session_list w_full
                        @ [\<lparr>role = lit ''user'', content = py_strip (lit ''Hello''), timestamp = now_user E_ok\<rparr>,
                           \<lparr>role = lit ''assistant'', content = reply, timestamp = now_reply E_ok\<rparr>]
         in session_list (fst (handle_message sample_lib E_ok (lit ''Hello'') w_full))
            = drop (length pre - 10) pre
          \<and> suffix (session_list (fst (handle_message sample_lib E_ok (lit ''Hello'') w_full))) pre)
   \<and> snd (handle_message sample_lib E_send_fails (lit ''Hello'') w_full) = None
   \<and> session_list (fst (handle_message sample_lib E_send_fails (lit ''Hello'') w_full))
     = map numbered [2, 3, 4, 5, 6, 7, 8, 9] @ [hello_user, error_reply]
   \<and> length (session_list (fst (handle_message sample_lib E_send_fails (lit ''Hello'') w_full))) \<le> 10
   \<and> (\<exists>reply. let pre = session_list w_full
                        @ [\<lparr>role = lit ''user'', content = py_strip (lit ''Hello''),
                             timestamp = now_user E_send_fails\<rparr>,
                           \<lparr>role = lit ''assistant'', content = reply, timestamp = now_reply E_send_fails\<rparr>]
         in session_list (fst (handle_message sample_lib E_send_fails (lit ''Hello'') w_full))
            = drop (length pre - 10) pre
          \<and> suffix (session_list (fst (handle_message sample_lib E_send_fails (lit ''Hello'') w_full))) pre)"
proof -
  let ?a = "handle_message sample_lib E_ok (lit ''Hello'') w_full"
  let ?b = "handle_message sample_lib E_send_fails (lit ''Hello'') w_full"
  have a: "?a = (fst ?a, None)" using w_full_hello(1) by (metis prod.collapse)
  have b: "?b = (fst ?b, None)" using w_full_hello_send_fails(1) by (metis prod.collapse)
  note ta = session_history_capped [OF wf_w_full a]
  note tb = session_history_capped [OF wf_w_full b]
  show ?thesis
    using wf_w_full session_list_w_full w_full_hello(1,2) w_full_hello_send_fails ta tb
    by (intro conjI) blast+
qed

text \<open>
  C2 as stated fails. In a session started without a history file, seven turns append
  14 entries; the file then holds the last 12 only. Each turn starts from the session's
  list, which the turn before cut to 10 entries.
\<close>

theorem full_history_counterexample:
  "load_history_from_file sample_lib False
     (disk (run_turns sample_lib
        [hello_turn, hello_turn, hello_turn, hello_turn, hello_turn, hello_turn, hello_turn] w_ready))
   = [hello_user, hello_reply, hello_user, hello_reply, hello_user, hello_reply,
      hello_user, hello_reply, hello_user, hello_reply, hello_user, hello_reply]
   \<and> load_history_from_file sample_lib False
     (disk (run_turns sample_lib
        [hello_turn, hello_turn, hello_turn, hello_turn, hello_turn, hello_turn, hello_turn] w_ready))
   \<noteq> [hello_user, hello_reply, hello_user, hello_reply, hello_user, hello_reply,
      hello_user, hello_reply, hello_user, hello_reply, hello_user, hello_reply,
      hello_user, hello_reply]"
  by (simp add: seven_turns_disk load_dumps)

text \<open>
  C2, amended. After a completed turn the list given to \<^verbatim>\<open>save_history_to_file\<close> is
  that turn's list before truncation: the session's history at the start of the turn,
  the user entry, the assistant entry; the turn's cut to 10 entries is not applied to
  it. It is not the full accumulated history: when the next turn completes as well, the
  list it saves is the last 10 entries of the list of the turn before and its own two
  entries, at most 12.
\<close>

theorem saved_history_is_turn_list:
  assumes "wf_world w" and "handle_message L E1 m1 w = (w1, None)"
    and "handle_message L E2 m2 w1 = (w2, None)"
  shows "\<exists>r1 r2.
     let pre1 = session_list w
                @ [\<lparr>role = lit ''user'', content = py_strip m1, timestamp = now_user E1\<rparr>,
                   \<lparr>role = lit ''assistant'', content = r1, timestamp = now_reply E1\<rparr>];
         pre2 = last10 pre1
                @ [\<lparr>role = lit ''user'', content = py_strip m2, timestamp = now_user E2\<rparr>,
                   \<lparr>role = lit ''assistant'', content = r2, timestamp = now_reply E2\<rparr>]
     in disk w1 = save_history_to_file (write_raises E1) (leftover E1) pre1 (disk w)
      \<and> disk w2 = save_history_to_file (write_raises E2) (leftover E2) pre2 (disk w1)
      \<and> length pre2 \<le> 12"
proof -
  obtain r1 where 1: "session_list w1 = last10 (session_list w @ [user_entry E1 m1, reply_entry E1 r1])"
    "disk w1 = save_history_to_file (write_raises E1) (leftover E1)
                 (session_list w @ [user_entry E1 m1, reply_entry E1 r1]) (disk w)"
    "wf_world w1"
    using handle_message_completed [OF assms(1,2)] by blast
  obtain r2 where 2: "disk w2 = save_history_to_file (write_raises E2) (leftover E2)
                 (session_list w1 @ [user_entry E2 m2, reply_entry E2 r2]) (disk w1)"
    using handle_message_completed [OF 1(3) assms(3)] by blast
  show ?thesis
    using 1(1,2) 2
    by (intro exI [of _ r1] exI [of _ r2])
      (simp add: Let_def user_entry_def reply_entry_def length_last10)
qed

text \<open>
  C2, amended, at two turns of a session that holds ten entries, numbered 0 to 9, the
  second turn by the \<^verbatim>\<open>except\<close> block. The first turn saves all twelve entries; the
  second saves twelve as well, without entries 0 and 1.
\<close>

theorem saved_history_is_turn_list_witness:
  "wf_world w_full
   \<and> session_list w_full = map numbered [0, 1, 2, 3, 4, 5, 6, 7, 8, 9]
   \<and> snd (handle_message sample_lib E_ok (lit ''Hello'') w_full) = None
   \<and> snd (handle_message sample_lib E_send_fails (lit ''Hello'')
            (fst (handle_message sample_lib E_ok (lit ''Hello'') w_full))) = None
   \<and> load_history_from_file sample_lib False
        (disk (fst (handle_message sample_lib E_ok (lit ''Hello'') w_full)))
     = map numbered [0, 1, 2, 3, 4, 5, 6, 7, 8, 9] @ [hello_user, hello_reply]
   \<and> load_history_from_file sample_lib False
        (disk (fst (handle_message sample_lib E_send_fails (lit ''Hello'')
            (fst (handle_message sample_lib E_ok (lit ''Hello'') w_full)))))
     = map numbered [2, 3, 4, 5, 6, 7, 8, 9] @ [hello_user, hello_reply, hello_user, error_reply]
   \<and> (\<exists>r1 r2.
     let pre1 = session_list w_full
                @ [\<lparr>role = lit ''user'', content = py_strip (lit ''Hello''), timestamp = now_user E_ok\<rparr>,
                   \<lparr>role = lit ''assistant'', content = r1, timestamp = now_reply E_ok\<rparr>];
         pre2 = last10 pre1
                @ [\<lparr>role = lit ''user'', content = py_strip (lit ''Hello''),
                     timestamp = now_user E_send_fails\<rparr>,
                   \<lparr>role = lit ''assistant'', content = r2, timestamp = now_reply E_send_fails\<rparr>]
     in disk (fst (handle_message sample_lib E_ok (lit ''Hello'') w_full))
          = save_history_to_file (write_raises E_ok) (leftover E_ok) pre1 (disk w_full)
      \<and> disk (fst (handle_message sample_lib E_send_fails (lit ''Hello'')
            (fst (handle_message sample_lib E_ok (lit ''Hello'') w_full))))
          = save_history_to_file (write_raises E_send_fails) (leftover E_send_fails) pre2
              (disk (fst (handle_message sample_lib E_ok (lit ''Hello'') w_full)))
      \<and> length pre2 \<le> 12)"
proof -
  let ?w1 = "fst (handle_message sample_lib E_ok (lit ''Hello'') w_full)"
  let ?w2 = "fst (handle_message sample_lib E_send_fails (lit ''Hello'') ?w1)"
  have r1: "handle_message sample_lib E_ok (lit ''Hello'') w_full = (?w1, None)"
    using w_full_hello(1) by (metis prod.collapse)
  have r2: "handle_message sample_lib E_send_fails (lit ''Hello'') ?w1 = (?w2, None)"
    using w_full_two_turns(1) by (metis prod.collapse)
  have l1: "load_history_from_file sample_lib False (disk ?w1)
     = map numbered [0, 1, 2, 3, 4, 5, 6, 7, 8, 9] @ [hello_user, hello_reply]"
    by (simp only: w_full_hello(3) load_dumps)
  have l2: "load_history_from_file sample_lib False (disk ?w2)
     = map numbered [2, 3, 4, 5, 6, 7, 8, 9] @ [hello_user, hello_reply, hello_user, error_reply]"
    by (simp only: w_full_two_turns(2) load_dumps)
  note t = saved_history_is_turn_list [OF wf_w_full r1 r2]
  show ?thesis
    using wf_w_full session_list_w_full w_full_hello(1) w_full_two_turns(1) l1 l2 t
    by (intro conjI) blast+
qed

text \<open>
  C1 on the code: in a fresh session, \<^verbatim>\<open>/clear\<close> and then \<^verbatim>\<open>/history\<close>. The second
  reply is not \<^verbatim>\<open>No translation history available.\<close> but a listing of three lines.
  \<^verbatim>\<open>handle_message\<close> keeps the list it read before the command, and stores its last 10
  entries in the session after \<^verbatim>\<open>process_command\<close> has stored the empty list.
\<close>

theorem clear_then_history_listing:
  "sent (run_turns sample_lib [(E_ok, lit ''/clear''), (E_ok, lit ''/history'')] w_ready)
   = [lit ''Translation history cleared.'',
      lit ''2024-01-01 10:00:00 [user]: /clear'' @ [10]
      @ lit ''2024-01-01 10:00:01 [assistant]: Translation history cleared.'' @ [10]
      @ lit ''2024-01-01 10:00:00 [user]: /history'']"
  by (simp add: turn_defs w_ready_def E_ok_def Let_def)

end
